theory Spec2Isabelle
  imports Complex_Main "HOL-Library.Sublist" "HOL-Library.Code_Target_Numeral"
begin

section \<open>Values that cross the protocol boundary\<close>

text \<open>
  The handler of \<^verbatim>\<open>src/index.ts\<close> receives \<^verbatim>\<open>request.params.arguments\<close>, which is
  either \<^verbatim>\<open>undefined\<close> or an object decoded from JSON. A JSON number is a finite
  double; every finite double is a rational, so numbers are modelled by \<^typ>\<open>rat\<close>.
\<close>

datatype json =
    JNull
  | JBool bool
  | JNum rat
  | JStr string
  | JArr "json list"
  | JObj "(string \<times> json) list"

type_synonym args = "(string \<rightharpoonup> json) option"

text \<open>\<^verbatim>\<open>args?.key\<close>: \<^verbatim>\<open>undefined\<close> (here \<open>None\<close>) when the bag or the key is absent.\<close>

definition field :: "args \<Rightarrow> string \<Rightarrow> json option" where
  "field a k = (case a of None \<Rightarrow> None | Some m \<Rightarrow> m k)"

text \<open>
  What the subprocess does when left to run: it exits with a status, it is ended by a
  signal, or it cannot be started. The two strings are everything it writes to standard
  output and to standard error, as bytes.
\<close>

datatype proc_result =
    Exited int string string
  | Signalled string string
  | SpawnFailed string

text \<open>
  The surroundings of the program, read but never written by it: the path
  \<^verbatim>\<open>getConfigPath()\<close> returns (home directory joined with \<^verbatim>\<open>.openhue\<close>); the operating
  system that runs a command line; for a command whose two streams both outgrow the
  buffer, whether standard output did so first; and the text JavaScript prints for the
  numbers whose shortest round-trip digits are a matter of floating-point rounding (see
  \<open>Number_toString\<close> below).
\<close>

record env =
  configPath :: string
  spawn :: "string \<Rightarrow> proc_result"
  stdoutFirst :: "string \<Rightarrow> bool"
  numberOther :: "rat \<Rightarrow> string"

text \<open>
  A thrown JavaScript value: a \<^verbatim>\<open>ZodError\<close> with its issues, an \<^verbatim>\<open>Error\<close> with its
  message, or the \<^verbatim>\<open>TypeError\<close> of a failed conversion to a string.
\<close>

record ZodIssue =
  path :: "string list"
  message :: string

datatype thrown =
    ZodError "ZodIssue list"
  | Error string
  | TypeError string

section \<open>JavaScript string conversions\<close>

text \<open>\<^verbatim>\<open>Array.prototype.join\<close> on strings.\<close>

fun join :: "string \<Rightarrow> string list \<Rightarrow> string" where
  "join sep [] = []"
| "join sep [x] = x"
| "join sep (x # y # ys) = x @ sep @ join sep (y # ys)"

definition digit_char :: "nat \<Rightarrow> char" where
  "digit_char d = ''0123456789'' ! (d mod 10)"

fun digits :: "nat \<Rightarrow> string" where
  "digits n = (if n < 10 then [digit_char n] else digits (n div 10) @ [digit_char (n mod 10)])"

declare digits.simps [simp del]

text \<open>
  \<^verbatim>\<open>Number.prototype.toString\<close>, used by every template literal that interpolates a
  number. JavaScript prints the shortest decimal digits that read back as the same double.
  Two cases need no rounding argument and are written out:
  \<^item> a whole number of magnitude at most \<open>2\<^sup>5\<^sup>3\<close> prints as its decimal digits
    (neighbouring doubles are at most 1 apart there, so no shorter decimal reads back);
  \<^item> a number that is not whole, has a finite decimal expansion of at most 15 significant
    digits and magnitude at least \<open>10\<^sup>-\<^sup>6\<close> prints as that expansion, \<^verbatim>\<open>50.5\<close> for
    instance (decimals of up to 15 significant digits read back as distinct doubles).
  Everything else (longer expansions, larger whole numbers, exponent notation) is the
  environment's \<open>numberOther\<close>.
\<close>

text \<open>The least number of decimal places, up to a bound, at which the denominator divides out.\<close>

primrec decimal_places :: "nat \<Rightarrow> nat \<Rightarrow> int \<Rightarrow> nat option" where
  "decimal_places 0 k d = None"
| "decimal_places (Suc fuel) k d =
     (if (10 ^ k) mod d = 0 then Some k else decimal_places fuel (Suc k) d)"

definition pad_zeros :: "nat \<Rightarrow> string \<Rightarrow> string" where
  "pad_zeros k s = replicate (k - length s) CHR ''0'' @ s"

definition short_decimal :: "rat \<Rightarrow> string option" where
  "short_decimal r =
     (case quotient_of r of
        (n, d) \<Rightarrow>
          (case decimal_places 22 0 d of
             None \<Rightarrow> None
           | Some k \<Rightarrow>
               (let scaled = nat (\<bar>n\<bar> * 10 ^ k div d)
                in if length (digits scaled) \<le> 15 \<and> 1 \<le> \<bar>r\<bar> * 10 ^ 6
                   then Some ((if r < 0 then ''-'' else [])
                              @ digits (scaled div 10 ^ k) @ ''.''
                              @ pad_zeros k (digits (scaled mod 10 ^ k)))
                   else None)))"

definition Number_toString :: "env \<Rightarrow> rat \<Rightarrow> string" where
  "Number_toString e r =
     (if r = of_int \<lfloor>r\<rfloor> \<and> \<bar>r\<bar> \<le> 2 ^ 53
      then (if r < 0 then ''-'' @ digits (nat (- \<lfloor>r\<rfloor>)) else digits (nat \<lfloor>r\<rfloor>))
      else if r \<noteq> of_int \<lfloor>r\<rfloor> then
        (case short_decimal r of Some s \<Rightarrow> s | None \<Rightarrow> numberOther e r)
      else numberOther e r)"

text \<open>
  \<^verbatim>\<open>`${v}`\<close> for a value decoded from JSON: an array prints its elements joined by
  commas (a \<^verbatim>\<open>null\<close> element prints as nothing); an object prints as
  \<^verbatim>\<open>[object Object]\<close>, unless it has a key \<^verbatim>\<open>toString\<close> of its own: that value is not a
  function, the inherited \<^verbatim>\<open>valueOf\<close> returns the object itself, and the conversion
  throws a \<^verbatim>\<open>TypeError\<close>.
\<close>

fun ToString :: "env \<Rightarrow> json \<Rightarrow> thrown + string"
  and ToString_elems :: "env \<Rightarrow> json list \<Rightarrow> thrown + string list" where
  "ToString e JNull = Inr ''null''"
| "ToString e (JBool b) = Inr (if b then ''true'' else ''false'')"
| "ToString e (JNum r) = Inr (Number_toString e r)"
| "ToString e (JStr s) = Inr s"
| "ToString e (JArr xs) =
     (case ToString_elems e xs of Inl t \<Rightarrow> Inl t | Inr ss \<Rightarrow> Inr (join '','' ss))"
| "ToString e (JObj kvs) =
     (if ''toString'' \<in> set (map fst kvs)
      then Inl (TypeError ''Cannot convert object to primitive value'')
      else Inr ''[object Object]'')"
| "ToString_elems e [] = Inr []"
| "ToString_elems e (x # xs) =
     (case (case x of JNull \<Rightarrow> Inr [] | _ \<Rightarrow> ToString e x) of
        Inl t \<Rightarrow> Inl t
      | Inr s \<Rightarrow> (case ToString_elems e xs of Inl t \<Rightarrow> Inl t | Inr ss \<Rightarrow> Inr (s # ss)))"

text \<open>The truthiness test of \<^verbatim>\<open>if (v)\<close>.\<close>

fun truthy :: "json option \<Rightarrow> bool" where
  "truthy None = False"
| "truthy (Some JNull) = False"
| "truthy (Some (JBool b)) = b"
| "truthy (Some (JNum r)) = (r \<noteq> 0)"
| "truthy (Some (JStr s)) = (s \<noteq> [])"
| "truthy (Some (JArr xs)) = True"
| "truthy (Some (JObj kvs)) = True"

section \<open>The validation schemas (lines 28--48)\<close>

text \<open>
  The three schemas are built from \<^verbatim>\<open>z.string()\<close>, \<^verbatim>\<open>z.enum([...])\<close>,
  \<^verbatim>\<open>z.number().min(a).max(b)\<close>, \<^verbatim>\<open>.optional()\<close> and \<^verbatim>\<open>z.object({...})\<close> of the zod
  library (version 3: the handler reads \<^verbatim>\<open>error.errors\<close>). Each parser takes the path of
  the value and the value (\<open>None\<close> for \<^verbatim>\<open>undefined\<close>) and returns the parsed value or
  its issues, with the messages of zod's default error map.
\<close>

definition getParsedType :: "json \<Rightarrow> string" where
  "getParsedType v =
     (case v of JNull \<Rightarrow> ''null'' | JBool b \<Rightarrow> ''boolean'' | JNum r \<Rightarrow> ''number''
      | JStr s \<Rightarrow> ''string'' | JArr xs \<Rightarrow> ''array'' | JObj kvs \<Rightarrow> ''object'')"

definition invalid_type :: "string list \<Rightarrow> string \<Rightarrow> json option \<Rightarrow> ZodIssue" where
  "invalid_type p expected v =
     (case v of
        None \<Rightarrow> \<lparr>path = p, message = ''Required''\<rparr>
      | Some x \<Rightarrow> \<lparr>path = p, message = ''Expected '' @ expected @ '', received '' @ getParsedType x\<rparr>)"

definition z_string :: "string list \<Rightarrow> json option \<Rightarrow> ZodIssue list + string" where
  "z_string p v = (case v of Some (JStr s) \<Rightarrow> Inr s | _ \<Rightarrow> Inl [invalid_type p ''string'' v])"

definition joinValues :: "string list \<Rightarrow> string" where
  "joinValues opts = join '' | '' (map (\<lambda>v. [CHR 0x27] @ v @ [CHR 0x27]) opts)"

definition z_enum :: "string list \<Rightarrow> string list \<Rightarrow> json option \<Rightarrow> ZodIssue list + string" where
  "z_enum opts p v =
     (case v of
        Some (JStr s) \<Rightarrow>
          if s \<in> set opts then Inr s
          else Inl [\<lparr>path = p,
                     message = ''Invalid enum value. Expected '' @ joinValues opts
                               @ '', received '' @ [CHR 0x27] @ s @ [CHR 0x27]\<rparr>]
      | _ \<Rightarrow> Inl [invalid_type p (joinValues opts) v])"

definition z_number_min_max :: "nat \<Rightarrow> nat \<Rightarrow> string list \<Rightarrow> json option \<Rightarrow> ZodIssue list + rat" where
  "z_number_min_max lo hi p v =
     (case v of
        Some (JNum r) \<Rightarrow>
          (let too_small =
                 (if r < of_nat lo
                  then [\<lparr>path = p, message = ''Number must be greater than or equal to '' @ digits lo\<rparr>]
                  else []);
               too_big =
                 (if of_nat hi < r
                  then [\<lparr>path = p, message = ''Number must be less than or equal to '' @ digits hi\<rparr>]
                  else [])
           in if too_small @ too_big = [] then Inr r else Inl (too_small @ too_big))
      | _ \<Rightarrow> Inl [invalid_type p ''number'' v])"

definition z_optional ::
  "(string list \<Rightarrow> json option \<Rightarrow> ZodIssue list + 'a) \<Rightarrow> string list \<Rightarrow> json option
     \<Rightarrow> ZodIssue list + 'a option" where
  "z_optional inner p v =
     (case v of
        None \<Rightarrow> Inr None
      | Some x \<Rightarrow> (case inner p v of Inl es \<Rightarrow> Inl es | Inr y \<Rightarrow> Inr (Some y)))"

definition issues :: "ZodIssue list + 'a \<Rightarrow> ZodIssue list" where
  "issues r = (case r of Inl es \<Rightarrow> es | Inr y \<Rightarrow> [])"

text \<open>The value \<^verbatim>\<open>LightActionSchema.parse\<close> and \<^verbatim>\<open>RoomActionSchema.parse\<close> return.\<close>

record ActionParams =
  target :: string
  action :: string
  brightness :: "rat option"
  color :: "string option"
  temperature :: "rat option"

text \<open>The value \<^verbatim>\<open>SceneActionSchema.parse\<close> returns.\<close>

record SceneParams =
  name :: string
  room :: "string option"
  mode :: "string option"

text \<open>
  \<^verbatim>\<open>z.object\<close> parses every key of its shape, in the order of the shape, and collects the
  issues of all of them; keys outside the shape are dropped. An \<^verbatim>\<open>undefined\<close> bag is
  one issue at the empty path.
\<close>

definition LightActionSchema_parse :: "args \<Rightarrow> ZodIssue list + ActionParams" where
  "LightActionSchema_parse a =
     (case a of
        None \<Rightarrow> Inl [invalid_type [] ''object'' None]
      | Some m \<Rightarrow>
          (let t = z_string [''target''] (m ''target'');
               ac = z_enum [''on'', ''off''] [''action''] (m ''action'');
               b = z_optional (z_number_min_max 0 100) [''brightness''] (m ''brightness'');
               c = z_optional z_string [''color''] (m ''color'');
               te = z_optional (z_number_min_max 153 500) [''temperature''] (m ''temperature'')
           in case (t, ac, b, c, te) of
                (Inr t', Inr ac', Inr b', Inr c', Inr te') \<Rightarrow>
                  Inr \<lparr>target = t', action = ac', brightness = b', color = c', temperature = te'\<rparr>
              | _ \<Rightarrow> Inl (issues t @ issues ac @ issues b @ issues c @ issues te)))"

definition RoomActionSchema_parse :: "args \<Rightarrow> ZodIssue list + ActionParams" where
  "RoomActionSchema_parse a =
     (case a of
        None \<Rightarrow> Inl [invalid_type [] ''object'' None]
      | Some m \<Rightarrow>
          (let t = z_string [''target''] (m ''target'');
               ac = z_enum [''on'', ''off''] [''action''] (m ''action'');
               b = z_optional (z_number_min_max 0 100) [''brightness''] (m ''brightness'');
               c = z_optional z_string [''color''] (m ''color'');
               te = z_optional (z_number_min_max 153 500) [''temperature''] (m ''temperature'')
           in case (t, ac, b, c, te) of
                (Inr t', Inr ac', Inr b', Inr c', Inr te') \<Rightarrow>
                  Inr \<lparr>target = t', action = ac', brightness = b', color = c', temperature = te'\<rparr>
              | _ \<Rightarrow> Inl (issues t @ issues ac @ issues b @ issues c @ issues te)))"

definition SceneActionSchema_parse :: "args \<Rightarrow> ZodIssue list + SceneParams" where
  "SceneActionSchema_parse a =
     (case a of
        None \<Rightarrow> Inl [invalid_type [] ''object'' None]
      | Some m \<Rightarrow>
          (let n = z_string [''name''] (m ''name'');
               r = z_optional z_string [''room''] (m ''room'');
               mo = z_optional (z_enum [''active'', ''dynamic'', ''static'']) [''mode''] (m ''mode'')
           in case (n, r, mo) of
                (Inr n', Inr r', Inr mo') \<Rightarrow> Inr \<lparr>name = n', room = r', mode = mo'\<rparr>
              | _ \<Rightarrow> Inl (issues n @ issues r @ issues mo)))"

section \<open>Building the command line (lines 22--25 and the handler's cases)\<close>

definition buildDockerCommand :: "env \<Rightarrow> string \<Rightarrow> string" where
  \<open>buildDockerCommand e command =
     ''docker run -v "'' @ configPath e @ '':/.openhue" --rm openhue/cli '' @ command\<close>

text \<open>
  \<^verbatim>\<open>command += ` <flag>"${v}"`\<close> under \<^verbatim>\<open>if (v)\<close>, for an argument the read tools take
  as it comes: nothing is appended for a falsy value, and the conversion of the value to
  a string can throw.
\<close>

definition append_quoted :: "env \<Rightarrow> string \<Rightarrow> string \<Rightarrow> json option \<Rightarrow> thrown + string" where
  \<open>append_quoted e command flag v =
     (case v of
        Some x \<Rightarrow>
          if truthy (Some x)
          then (case ToString e x of
                  Inl t \<Rightarrow> Inl t
                | Inr s \<Rightarrow> Inr (command @ flag @ ''"'' @ s @ ''"''))
          else Inr command
      | None \<Rightarrow> Inr command)\<close>

definition get_lights_command :: "env \<Rightarrow> args \<Rightarrow> thrown + string" where
  \<open>get_lights_command e a =
     (case append_quoted e ''get light'' '' '' (field a ''lightId'') of
        Inl t \<Rightarrow> Inl t
      | Inr command \<Rightarrow>
          (case append_quoted e command '' --room '' (field a ''room'') of
             Inl t \<Rightarrow> Inl t
           | Inr command \<Rightarrow> Inr (command @ '' --json'')))\<close>

definition get_rooms_command :: "env \<Rightarrow> args \<Rightarrow> thrown + string" where
  \<open>get_rooms_command e a =
     (case append_quoted e ''get room'' '' '' (field a ''roomId'') of
        Inl t \<Rightarrow> Inl t
      | Inr command \<Rightarrow> Inr (command @ '' --json''))\<close>

definition get_scenes_command :: "env \<Rightarrow> args \<Rightarrow> thrown + string" where
  \<open>get_scenes_command e a =
     (case append_quoted e ''get scene'' '' --room '' (field a ''room'') of
        Inl t \<Rightarrow> Inl t
      | Inr command \<Rightarrow> Inr (command @ '' --json''))\<close>

definition control_light_command :: "env \<Rightarrow> ActionParams \<Rightarrow> string" where
  \<open>control_light_command e params =
     (let command = ''set light "'' @ target params @ ''" --'' @ action params;
          command = (case brightness params of
                       Some b \<Rightarrow> command @ '' --brightness '' @ Number_toString e b
                     | None \<Rightarrow> command);
          command = (case color params of
                       Some c \<Rightarrow> if c \<noteq> [] then command @ '' --color '' @ c else command
                     | None \<Rightarrow> command);
          command = (case temperature params of
                       Some t \<Rightarrow> if t \<noteq> 0 then command @ '' --temperature '' @ Number_toString e t else command
                     | None \<Rightarrow> command)
      in command)\<close>

definition control_room_command :: "env \<Rightarrow> ActionParams \<Rightarrow> string" where
  \<open>control_room_command e params =
     (let command = ''set room "'' @ target params @ ''" --'' @ action params;
          command = (case brightness params of
                       Some b \<Rightarrow> command @ '' --brightness '' @ Number_toString e b
                     | None \<Rightarrow> command);
          command = (case color params of
                       Some c \<Rightarrow> if c \<noteq> [] then command @ '' --color '' @ c else command
                     | None \<Rightarrow> command);
          command = (case temperature params of
                       Some t \<Rightarrow> if t \<noteq> 0 then command @ '' --temperature '' @ Number_toString e t else command
                     | None \<Rightarrow> command)
      in command)\<close>

definition activate_scene_command :: "SceneParams \<Rightarrow> string" where
  \<open>activate_scene_command params =
     (let command = ''set scene "'' @ name params @ ''"'';
          command = (case room params of
                       Some r \<Rightarrow> if r \<noteq> [] then command @ '' --room "'' @ r @ ''"'' else command
                     | None \<Rightarrow> command);
          command = (case mode params of
                       Some mo \<Rightarrow> if mo \<noteq> [] then command @ '' --action '' @ mo else command
                     | None \<Rightarrow> command)
      in command)\<close>

section \<open>Running the command (lines 64--76)\<close>

text \<open>
  \<^verbatim>\<open>execAsync\<close> is Node's \<^verbatim>\<open>child_process.exec\<close>, promisified, called with no options,
  so with the default \<^verbatim>\<open>maxBuffer\<close> of 1 MiB per stream. As soon as a stream has
  delivered more bytes than that, the child is killed and the promise rejects with
  \<^verbatim>\<open><stream> maxBuffer length exceeded\<close>. Otherwise it resolves with the two captured
  streams when the process exits with status 0; it rejects with an \<^verbatim>\<open>Error\<close> whose message
  is \<^verbatim>\<open>Command failed: <command>\n<stderr>\<close> when the status is not 0 or a signal ended
  the process, and with the spawn error when the process could not be started.
\<close>

definition maxBuffer :: nat where
  "maxBuffer = 1024 * 1024"

definition overflow :: "env \<Rightarrow> string \<Rightarrow> string \<Rightarrow> string \<Rightarrow> thrown option" where
  "overflow e cmd out err =
     (if maxBuffer < length out \<and> (length err \<le> maxBuffer \<or> stdoutFirst e cmd)
      then Some (Error ''stdout maxBuffer length exceeded'')
      else if maxBuffer < length err
      then Some (Error ''stderr maxBuffer length exceeded'')
      else None)"

definition execAsync :: "env \<Rightarrow> string \<Rightarrow> thrown + (string \<times> string)" where
  "execAsync e cmd =
     (case spawn e cmd of
        Exited code out err \<Rightarrow>
          (case overflow e cmd out err of
             Some ex \<Rightarrow> Inl ex
           | None \<Rightarrow>
               if code = 0 then Inr (out, err)
               else Inl (Error (''Command failed: '' @ cmd @ [CHR 0x0A] @ err)))
      | Signalled out err \<Rightarrow>
          (case overflow e cmd out err of
             Some ex \<Rightarrow> Inl ex
           | None \<Rightarrow> Inl (Error (''Command failed: '' @ cmd @ [CHR 0x0A] @ err)))
      | SpawnFailed msg \<Rightarrow> Inl (Error msg))"

text \<open>
  The result of \<^verbatim>\<open>executeHueCommand\<close> together with the command lines it handed to the
  operating system (always exactly one). What it writes to the server's own log with
  \<^verbatim>\<open>console.error\<close> is not part of the result and is left out.
\<close>

definition executeHueCommand :: "env \<Rightarrow> string \<Rightarrow> (thrown + string) \<times> string list" where
  "executeHueCommand e command =
     (let full = buildDockerCommand e command
      in (case execAsync e full of
            Inl err \<Rightarrow> Inl err
          | Inr (stdout, stderr) \<Rightarrow> if stderr \<noteq> [] then Inl (Error stderr) else Inr stdout,
          [full]))"

section \<open>The call-tool handler (lines 223--361)\<close>

text \<open>
  The body of the \<^verbatim>\<open>try\<close> block: what it returns (the text of the single content item)
  or throws, and the command lines executed on the way.
\<close>

definition CallTool_try :: "env \<Rightarrow> string \<Rightarrow> args \<Rightarrow> (thrown + string) \<times> string list" where
  \<open>CallTool_try e tool a =
     (if tool = ''get-lights'' then
        (case get_lights_command e a of
           Inl t \<Rightarrow> (Inl t, [])
         | Inr command \<Rightarrow> executeHueCommand e command)
      else if tool = ''control-light'' then
        (case LightActionSchema_parse a of
           Inl es \<Rightarrow> (Inl (ZodError es), [])
         | Inr params \<Rightarrow>
             (case executeHueCommand e (control_light_command e params) of
                (Inl err, cmds) \<Rightarrow> (Inl err, cmds)
              | (Inr out, cmds) \<Rightarrow>
                  (Inr (''Successfully set light "'' @ target params @ ''" to '' @ action params), cmds)))
      else if tool = ''get-rooms'' then
        (case get_rooms_command e a of
           Inl t \<Rightarrow> (Inl t, [])
         | Inr command \<Rightarrow> executeHueCommand e command)
      else if tool = ''control-room'' then
        (case RoomActionSchema_parse a of
           Inl es \<Rightarrow> (Inl (ZodError es), [])
         | Inr params \<Rightarrow>
             (case executeHueCommand e (control_room_command e params) of
                (Inl err, cmds) \<Rightarrow> (Inl err, cmds)
              | (Inr out, cmds) \<Rightarrow>
                  (Inr (''Successfully set room "'' @ target params @ ''" to '' @ action params), cmds)))
      else if tool = ''get-scenes'' then
        (case get_scenes_command e a of
           Inl t \<Rightarrow> (Inl t, [])
         | Inr command \<Rightarrow> executeHueCommand e command)
      else if tool = ''activate-scene'' then
        (case SceneActionSchema_parse a of
           Inl es \<Rightarrow> (Inl (ZodError es), [])
         | Inr params \<Rightarrow>
             (case executeHueCommand e (activate_scene_command params) of
                (Inl err, cmds) \<Rightarrow> (Inl err, cmds)
              | (Inr out, cmds) \<Rightarrow>
                  (Inr (''Successfully activated scene "'' @ name params @ ''"''), cmds)))
      else (Inl (Error (''Unknown tool: '' @ tool)), []))\<close>

text \<open>The \<^verbatim>\<open>catch\<close> block: a \<^verbatim>\<open>ZodError\<close> becomes one \<^verbatim>\<open>Error\<close>; anything else is rethrown.\<close>

definition format_issue :: "ZodIssue \<Rightarrow> string" where
  "format_issue i = join ''.'' (path i) @ '': '' @ message i"

definition CallTool :: "env \<Rightarrow> string \<Rightarrow> args \<Rightarrow> (thrown + string) \<times> string list" where
  "CallTool e tool a =
     (case CallTool_try e tool a of
        (Inl (ZodError es), cmds) \<Rightarrow>
          (Inl (Error (''Invalid arguments: '' @ join '', '' (map format_issue es))), cmds)
      | r \<Rightarrow> r)"

section \<open>The tool registry (lines 79--220)\<close>

text \<open>
  One entry of \<^verbatim>\<open>properties\<close> in an \<^verbatim>\<open>inputSchema\<close>: its \<^verbatim>\<open>type\<close>, and its
  \<^verbatim>\<open>enum\<close>, \<^verbatim>\<open>minimum\<close> and \<^verbatim>\<open>maximum\<close> where the source gives them.
\<close>

record property =
  ptype :: string
  penum :: "string list option"
  pminimum :: "rat option"
  pmaximum :: "rat option"
  pdescription :: string

record tool_descriptor =
  tool_name :: string
  description :: string
  properties :: "(string \<times> property) list"
  required :: "string list"

definition string_property :: "string \<Rightarrow> property" where
  "string_property d =
     \<lparr>ptype = ''string'', penum = None, pminimum = None, pmaximum = None, pdescription = d\<rparr>"

definition enum_property :: "string list \<Rightarrow> string \<Rightarrow> property" where
  "enum_property opts d =
     \<lparr>ptype = ''string'', penum = Some opts, pminimum = None, pmaximum = None, pdescription = d\<rparr>"

definition number_property :: "rat \<Rightarrow> rat \<Rightarrow> string \<Rightarrow> property" where
  "number_property lo hi d =
     \<lparr>ptype = ''number'', penum = None, pminimum = Some lo, pmaximum = Some hi, pdescription = d\<rparr>"

definition ListTools :: "tool_descriptor list" where
  "ListTools =
     [\<lparr>tool_name = ''get-lights'',
       description = ''List all Hue lights or get details for a specific light'',
       properties =
         [(''lightId'', string_property ''Optional light ID or name to get specific light details''),
          (''room'', string_property ''Optional room name to filter lights'')],
       required = []\<rparr>,
      \<lparr>tool_name = ''control-light'',
       description = ''Control a specific Hue light'',
       properties =
         [(''target'', string_property ''Light ID or name''),
          (''action'', enum_property [''on'', ''off''] ''Turn light on or off''),
          (''brightness'', number_property 0 100 ''Optional brightness level (0-100)''),
          (''color'', string_property ''Optional color name (e.g., 'red', 'blue')''),
          (''temperature'', number_property 153 500 ''Optional color temperature in Mirek'')],
       required = [''target'', ''action'']\<rparr>,
      \<lparr>tool_name = ''get-rooms'',
       description = ''List all rooms or get details for a specific room'',
       properties =
         [(''roomId'', string_property ''Optional room ID or name to get specific room details'')],
       required = []\<rparr>,
      \<lparr>tool_name = ''control-room'',
       description = ''Control all lights in a room'',
       properties =
         [(''target'', string_property ''Room ID or name''),
          (''action'', enum_property [''on'', ''off''] ''Turn room lights on or off''),
          (''brightness'', number_property 0 100 ''Optional brightness level (0-100)''),
          (''color'', string_property ''Optional color name''),
          (''temperature'', number_property 153 500 ''Optional color temperature in Mirek'')],
       required = [''target'', ''action'']\<rparr>,
      \<lparr>tool_name = ''get-scenes'',
       description = ''List all scenes or get details for specific scenes'',
       properties =
         [(''room'', string_property ''Optional room name to filter scenes'')],
       required = []\<rparr>,
      \<lparr>tool_name = ''activate-scene'',
       description = ''Activate a specific scene'',
       properties =
         [(''name'', string_property ''Scene name or ID''),
          (''room'', string_property ''Optional room name for the scene''),
          (''mode'', enum_property [''active'', ''dynamic'', ''static''] ''Optional scene mode'')],
       required = [''name'']\<rparr>]"

text \<open>
  What an advertised schema admits, read as JSON Schema: a property that is present has
  the stated type, is one of the \<^verbatim>\<open>enum\<close> values and lies within \<^verbatim>\<open>minimum\<close> and
  \<^verbatim>\<open>maximum\<close>; every \<^verbatim>\<open>required\<close> property is present. This is the reading of the
  discovery schema that validation is compared with; it is not code of the handler.
\<close>

definition property_accepts :: "property \<Rightarrow> json \<Rightarrow> bool" where
  "property_accepts p v =
     (if ptype p = ''string'' then
        (case v of
           JStr s \<Rightarrow> (case penum p of None \<Rightarrow> True | Some opts \<Rightarrow> s \<in> set opts)
         | _ \<Rightarrow> False)
      else if ptype p = ''number'' then
        (case v of
           JNum r \<Rightarrow> (case pminimum p of None \<Rightarrow> True | Some lo \<Rightarrow> lo \<le> r)
                     \<and> (case pmaximum p of None \<Rightarrow> True | Some hi \<Rightarrow> r \<le> hi)
         | _ \<Rightarrow> False)
      else True)"

definition schema_accepts :: "tool_descriptor \<Rightarrow> args \<Rightarrow> bool" where
  "schema_accepts t a =
     (list_all (\<lambda>k. field a k \<noteq> None) (required t)
      \<and> list_all (\<lambda>(k, p). case field a k of None \<Rightarrow> True | Some v \<Rightarrow> property_accepts p v)
           (properties t))"

definition find_tool :: "string \<Rightarrow> tool_descriptor option" where
  "find_tool n = find (\<lambda>t. tool_name t = n) ListTools"

section \<open>How the shell reads a command line\<close>

text \<open>
  \<^verbatim>\<open>exec\<close> hands the command line to \<^verbatim>\<open>/bin/sh -c\<close>, which splits it into words. The
  fragment of the shell's rules that the built commands fall into: spaces and tabs
  separate words; a double quote opens and closes a quoted section, inside which blanks
  and every character but the double quote, the dollar sign, the backquote and the
  backslash stand for themselves; outside quotes, the operator characters
  \<^verbatim>\<open>| & ; < > ( )\<close> and the newline, the dollar sign, the backquote, the backslash, the
  single quote and the pattern characters \<^verbatim>\<open>* ? [\<close> are not read as text, nor are
  \<^verbatim>\<open>#\<close> and \<^verbatim>\<open>~\<close> at the start of a word; every other character is text. A command
  line outside the fragment (an unclosed quote, or a character that makes the shell do more
  than split) has no reading: \<open>None\<close>.
\<close>

definition dq_special :: "char \<Rightarrow> bool" where
  \<open>dq_special c = (c \<in> set [CHR 0x22, CHR 0x24, CHR 0x60, CHR 0x5C])\<close>

definition sh_blank :: "char \<Rightarrow> bool" where
  "sh_blank c = (c \<in> set [CHR '' '', CHR 0x09])"

definition sh_special :: "char \<Rightarrow> bool" where
  \<open>sh_special c =
     (c \<in> set (''|&;<>()*?['' @ [CHR 0x0A, CHR 0x24, CHR 0x60, CHR 0x5C, CHR 0x27]))\<close>

definition sh_word_start_special :: "char \<Rightarrow> bool" where
  \<open>sh_word_start_special c = (c \<in> set ''#~'')\<close>

text \<open>
  \<open>sh_split quoted inword cur rest\<close>: \<open>cur\<close> is the word read so far (\<open>inword\<close> tells an
  empty word from no word), \<open>quoted\<close> that a double quote is open.
\<close>

fun sh_split :: "bool \<Rightarrow> bool \<Rightarrow> string \<Rightarrow> string \<Rightarrow> string list option" where
  "sh_split quoted inword cur [] =
     (if quoted then None else Some (if inword then [cur] else []))"
| "sh_split quoted inword cur (c # cs) =
     (if quoted then
        (if c = CHR 0x22 then sh_split False True cur cs
         else if dq_special c then None
         else sh_split True True (cur @ [c]) cs)
      else if sh_blank c then
        (if inword then map_option ((#) cur) (sh_split False False [] cs)
         else sh_split False False [] cs)
      else if c = CHR 0x22 then sh_split True True cur cs
      else if sh_special c \<or> (\<not> inword \<and> sh_word_start_special c) then None
      else sh_split False True (cur @ [c]) cs)"

definition sh_words :: "string \<Rightarrow> string list option" where
  "sh_words s = sh_split False False [] s"

section \<open>Concrete surroundings for the examples\<close>

text \<open>A machine on which every command succeeds and prints \<^verbatim>\<open>[]\<close>.\<close>

definition quiet_env :: env where
  "quiet_env =
     \<lparr>configPath = ''/home/user/.openhue'',
      spawn = (\<lambda>cmd. Exited 0 ''[]'' []),
      stdoutFirst = (\<lambda>cmd. True),
      numberOther = (\<lambda>r. ''?'')\<rparr>"





section \<open>Vocabulary for the statements\<close>

text \<open>
  The three action cases of the handler end the same way: a failed execution is passed
  on, a successful one is answered with the confirmation text, its output dropped.
\<close>

definition finish :: "(thrown + string) \<times> string list \<Rightarrow> string \<Rightarrow> (thrown + string) \<times> string list" where
  "finish r text =
     (case r of (Inl err, cmds) \<Rightarrow> (Inl err, cmds) | (Inr out, cmds) \<Rightarrow> (Inr text, cmds))"

text \<open>
  The issues of each field of an argument bag, field by field in the order of the shape:
  what \<^verbatim>\<open>LightActionSchema\<close> and \<^verbatim>\<open>RoomActionSchema\<close> find, and what
  \<^verbatim>\<open>SceneActionSchema\<close> finds.
\<close>

definition action_field_issues :: "(string \<rightharpoonup> json) \<Rightarrow> ZodIssue list" where
  "action_field_issues m =
     issues (z_string [''target''] (m ''target''))
     @ issues (z_enum [''on'', ''off''] [''action''] (m ''action''))
     @ issues (z_optional (z_number_min_max 0 100) [''brightness''] (m ''brightness''))
     @ issues (z_optional z_string [''color''] (m ''color''))
     @ issues (z_optional (z_number_min_max 153 500) [''temperature''] (m ''temperature''))"

definition scene_field_issues :: "(string \<rightharpoonup> json) \<Rightarrow> ZodIssue list" where
  "scene_field_issues m =
     issues (z_string [''name''] (m ''name''))
     @ issues (z_optional z_string [''room''] (m ''room''))
     @ issues (z_optional (z_enum [''active'', ''dynamic'', ''static'']) [''mode''] (m ''mode''))"

text \<open>The violations validation finds for a call; the read tools validate nothing.\<close>

definition validation_issues :: "string \<Rightarrow> args \<Rightarrow> ZodIssue list" where
  "validation_issues tool a =
     (if tool = ''control-light'' then issues (LightActionSchema_parse a)
      else if tool = ''control-room'' then issues (RoomActionSchema_parse a)
      else if tool = ''activate-scene'' then issues (SceneActionSchema_parse a)
      else [])"

section \<open>Facts about the conversions\<close>


lemma digits_examples:
  "digits 0 = ''0''" "digits 50 = ''50''" "digits 100 = ''100''" "digits 153 = ''153''" "digits 500 = ''500''"
  by code_simp+


lemma Number_toString_50: "Number_toString e 50 = ''50''"
  by (simp add: Number_toString_def digits_examples)

lemma Number_toString_half: "Number_toString e (101 / 2) = ''50.5''"
  by code_simp

lemma ToString_throws_TypeError:
  "ToString e v = Inl t \<Longrightarrow> \<exists>msg. t = TypeError msg"
  "ToString_elems e vs = Inl t \<Longrightarrow> \<exists>msg. t = TypeError msg"
  by (induction e v and e vs arbitrary: t and t rule: ToString_ToString_elems.induct)
     (auto split: sum.splits json.splits if_splits)

lemma append_quoted_throws_TypeError:
  "append_quoted e command flag v = Inl t \<Longrightarrow> \<exists>msg. t = TypeError msg"
  by (auto simp: append_quoted_def split: option.splits if_splits sum.splits
      dest: ToString_throws_TypeError(1))

lemma get_command_throws_TypeError:
  "get_lights_command e a = Inl t \<Longrightarrow> \<exists>msg. t = TypeError msg"
  "get_rooms_command e a = Inl t \<Longrightarrow> \<exists>msg. t = TypeError msg"
  "get_scenes_command e a = Inl t \<Longrightarrow> \<exists>msg. t = TypeError msg"
  by (auto simp: get_lights_command_def get_rooms_command_def get_scenes_command_def
      split: sum.splits dest: append_quoted_throws_TypeError)

section \<open>Facts about running a command\<close>

lemma snd_executeHueCommand [simp]:
  "snd (executeHueCommand e c) = [buildDockerCommand e c]"
  by (simp add: executeHueCommand_def Let_def)

lemma executeHueCommand_cases:
  "(\<exists>m. fst (executeHueCommand e c) = Inl (Error m)) \<or> (\<exists>out. fst (executeHueCommand e c) = Inr out)"
  by (auto simp: executeHueCommand_def execAsync_def overflow_def Let_def split: proc_result.splits)

lemma overflow_None:
  "length out \<le> maxBuffer \<Longrightarrow> length err \<le> maxBuffer \<Longrightarrow> overflow e cmd out err = None"
  by (simp add: overflow_def)




lemma executeHueCommand_signalled:
  assumes "spawn e (buildDockerCommand e c) = Signalled out err"
    and "length out \<le> maxBuffer" and "length err \<le> maxBuffer"
  shows "\<exists>m. fst (executeHueCommand e c) = Inl (Error m) \<and> suffix err m"
  using assms by (auto simp: executeHueCommand_def execAsync_def overflow_None Let_def suffix_def)

lemma executeHueCommand_success:
  assumes "spawn e (buildDockerCommand e c) = Exited 0 out []" and "length out \<le> maxBuffer"
  shows "executeHueCommand e c = (Inr out, [buildDockerCommand e c])"
  using assms by (simp add: executeHueCommand_def execAsync_def overflow_None Let_def)

lemma CallTool_get_lights:
  "get_lights_command e a = Inr c \<Longrightarrow> CallTool e ''get-lights'' a = executeHueCommand e c"
  "get_lights_command e a = Inl t \<Longrightarrow> CallTool e ''get-lights'' a = (Inl t, [])"
proof -
  show "get_lights_command e a = Inr c \<Longrightarrow> CallTool e ''get-lights'' a = executeHueCommand e c"
    using executeHueCommand_cases [of e c]
    by (cases "executeHueCommand e c") (auto simp: CallTool_def CallTool_try_def)
  show "get_lights_command e a = Inl t \<Longrightarrow> CallTool e ''get-lights'' a = (Inl t, [])"
    using get_command_throws_TypeError(1) [of e a t]
    by (auto simp: CallTool_def CallTool_try_def)
qed



lemma CallTool_invalid:
  "LightActionSchema_parse a = Inl es \<Longrightarrow>
     CallTool e ''control-light'' a = (Inl (Error (''Invalid arguments: '' @ join '', '' (map format_issue es))), [])"
  "RoomActionSchema_parse a = Inl es \<Longrightarrow>
     CallTool e ''control-room'' a = (Inl (Error (''Invalid arguments: '' @ join '', '' (map format_issue es))), [])"
  "SceneActionSchema_parse a = Inl es \<Longrightarrow>
     CallTool e ''activate-scene'' a = (Inl (Error (''Invalid arguments: '' @ join '', '' (map format_issue es))), [])"
  by (simp_all add: CallTool_def CallTool_try_def)

lemma CallTool_control_light:
  "LightActionSchema_parse a = Inr p \<Longrightarrow>
     CallTool e ''control-light'' a =
       finish (executeHueCommand e (control_light_command e p))
         (''Successfully set light '' @ [CHR 0x22] @ target p @ [CHR 0x22] @ '' to '' @ action p)"
  using executeHueCommand_cases [of e "control_light_command e p"]
  by (cases "executeHueCommand e (control_light_command e p)")
     (auto simp: CallTool_def CallTool_try_def finish_def)

lemma CallTool_control_room:
  "RoomActionSchema_parse a = Inr p \<Longrightarrow>
     CallTool e ''control-room'' a =
       finish (executeHueCommand e (control_room_command e p))
         (''Successfully set room '' @ [CHR 0x22] @ target p @ [CHR 0x22] @ '' to '' @ action p)"
  using executeHueCommand_cases [of e "control_room_command e p"]
  by (cases "executeHueCommand e (control_room_command e p)")
     (auto simp: CallTool_def CallTool_try_def finish_def)

lemma CallTool_activate_scene:
  "SceneActionSchema_parse a = Inr p \<Longrightarrow>
     CallTool e ''activate-scene'' a =
       finish (executeHueCommand e (activate_scene_command p))
         (''Successfully activated scene '' @ [CHR 0x22] @ name p @ [CHR 0x22])"
  using executeHueCommand_cases [of e "activate_scene_command p"]
  by (cases "executeHueCommand e (activate_scene_command p)")
     (auto simp: CallTool_def CallTool_try_def finish_def)




section \<open>Facts about the field parsers and the schemas\<close>

lemmas field_parser_defs =
  issues_def z_string_def z_enum_def z_number_min_max_def z_optional_def invalid_type_def
  getParsedType_def joinValues_def Let_def

lemma z_string_Inr_iff: "z_string p v = Inr s \<longleftrightarrow> v = Some (JStr s)"
  by (auto simp: z_string_def split: option.splits json.splits)

lemma z_enum_Inr_iff: "z_enum opts p v = Inr s \<longleftrightarrow> v = Some (JStr s) \<and> s \<in> set opts"
  by (auto simp: z_enum_def split: option.splits json.splits)

lemma z_number_Inr_iff:
  "z_number_min_max lo hi p v = Inr r \<longleftrightarrow> v = Some (JNum r) \<and> of_nat lo \<le> r \<and> r \<le> of_nat hi"
  by (auto simp: z_number_min_max_def Let_def split: option.splits json.splits)

lemma z_optional_Inr_iff:
  "z_optional f p v = Inr x \<longleftrightarrow> (v = None \<and> x = None) \<or> (v \<noteq> None \<and> (\<exists>y. f p v = Inr y \<and> x = Some y))"
  by (auto simp: z_optional_def split: option.splits sum.splits)

lemma z_string_Inl: "z_string p v = Inl es \<Longrightarrow> es \<noteq> []"
  by (auto simp: z_string_def split: option.splits json.splits)

lemma z_enum_Inl: "z_enum opts p v = Inl es \<Longrightarrow> es \<noteq> []"
  by (auto simp: z_enum_def split: option.splits json.splits if_splits)

lemma z_number_Inl: "z_number_min_max lo hi p v = Inl es \<Longrightarrow> es \<noteq> []"
  by (auto simp: z_number_min_max_def Let_def split: option.splits json.splits if_splits)

lemma z_optional_Inl: "(\<And>es. f p v = Inl es \<Longrightarrow> es \<noteq> []) \<Longrightarrow> z_optional f p v = Inl es \<Longrightarrow> es \<noteq> []"
  by (auto simp: z_optional_def split: option.splits sum.splits)

lemma issues_Nil_iff:
  "issues (z_string p v) = [] \<longleftrightarrow> (\<exists>s. z_string p v = Inr s)"
  "issues (z_enum opts p v) = [] \<longleftrightarrow> (\<exists>s. z_enum opts p v = Inr s)"
  "issues (z_optional (z_number_min_max lo hi) p v) = [] \<longleftrightarrow> (\<exists>s. z_optional (z_number_min_max lo hi) p v = Inr s)"
  "issues (z_optional z_string p v) = [] \<longleftrightarrow> (\<exists>s. z_optional z_string p v = Inr s)"
  "issues (z_optional (z_enum opts) p v) = [] \<longleftrightarrow> (\<exists>s. z_optional (z_enum opts) p v = Inr s)"
  using z_string_Inl [of p v] z_enum_Inl [of opts p v]
    z_optional_Inl [of "z_number_min_max lo hi" p v, OF z_number_Inl]
    z_optional_Inl [of "z_string" p v, OF z_string_Inl]
    z_optional_Inl [of "z_enum opts" p v, OF z_enum_Inl]
  by (auto simp: issues_def split: sum.splits)

lemma Light_parse_bad:
  "action_field_issues m \<noteq> [] \<Longrightarrow> LightActionSchema_parse (Some m) = Inl (action_field_issues m)"
  by (auto simp: LightActionSchema_parse_def action_field_issues_def Let_def issues_def split: sum.splits)

lemma Light_parse_ok: "action_field_issues m = [] \<Longrightarrow> \<exists>p. LightActionSchema_parse (Some m) = Inr p"
  unfolding action_field_issues_def append_is_Nil_conv issues_Nil_iff
  by (auto simp: LightActionSchema_parse_def Let_def)

lemma Light_parse_Inr:
  "LightActionSchema_parse (Some m) = Inr p \<Longrightarrow> action_field_issues m = []"
  by (auto simp: LightActionSchema_parse_def action_field_issues_def Let_def issues_def split: sum.splits)

lemma Room_parse_eq: "RoomActionSchema_parse = LightActionSchema_parse"
  by (rule ext) (simp add: RoomActionSchema_parse_def LightActionSchema_parse_def)

lemma Scene_parse_bad:
  "scene_field_issues m \<noteq> [] \<Longrightarrow> SceneActionSchema_parse (Some m) = Inl (scene_field_issues m)"
  by (auto simp: SceneActionSchema_parse_def scene_field_issues_def Let_def issues_def split: sum.splits)

lemma Scene_parse_ok: "scene_field_issues m = [] \<Longrightarrow> \<exists>p. SceneActionSchema_parse (Some m) = Inr p"
  unfolding scene_field_issues_def append_is_Nil_conv issues_Nil_iff
  by (auto simp: SceneActionSchema_parse_def Let_def)

lemma Scene_parse_Inr:
  "SceneActionSchema_parse (Some m) = Inr p \<Longrightarrow> scene_field_issues m = []"
  by (auto simp: SceneActionSchema_parse_def scene_field_issues_def Let_def issues_def split: sum.splits)

lemma parse_None:
  "LightActionSchema_parse None = Inl [\<lparr>path = [], message = ''Required''\<rparr>]"
  "RoomActionSchema_parse None = Inl [\<lparr>path = [], message = ''Required''\<rparr>]"
  "SceneActionSchema_parse None = Inl [\<lparr>path = [], message = ''Required''\<rparr>]"
  by (simp_all add: LightActionSchema_parse_def RoomActionSchema_parse_def SceneActionSchema_parse_def invalid_type_def)

lemma sublist_join: "x \<in> set xs \<Longrightarrow> sublist x (join sep xs)"
proof (induction sep xs rule: join.induct)
  case (1 sep)
  then show ?case by simp
next
  case (2 sep y)
  then show ?case by simp
next
  case (3 sep y z zs)
  show ?case
  proof (cases "x = y")
    case True
    then show ?thesis by (simp add: sublist_append_rightI)
  next
    case False
    with 3 have "sublist x (join sep (z # zs))" by simp
    then obtain ps ss where "join sep (z # zs) = ps @ x @ ss"
      by (auto simp: sublist_def)
    then have "join sep (y # z # zs) = (y @ sep @ ps) @ x @ ss" by simp
    then show ?thesis unfolding sublist_def by blast
  qed
qed

lemma validation_issues_Some:
  "validation_issues ''control-light'' (Some m) = action_field_issues m"
  "validation_issues ''control-room'' (Some m) = action_field_issues m"
  "validation_issues ''activate-scene'' (Some m) = scene_field_issues m"
proof -
  show "validation_issues ''control-light'' (Some m) = action_field_issues m"
    using Light_parse_bad [of m] Light_parse_ok [of m]
    by (cases "action_field_issues m = []") (auto simp: validation_issues_def issues_def)
  then show "validation_issues ''control-room'' (Some m) = action_field_issues m"
    by (simp add: validation_issues_def Room_parse_eq)
  show "validation_issues ''activate-scene'' (Some m) = scene_field_issues m"
    using Scene_parse_bad [of m] Scene_parse_ok [of m]
    by (cases "scene_field_issues m = []") (auto simp: validation_issues_def issues_def)
qed

lemma parse_Inl_nonempty:
  "LightActionSchema_parse a = Inl es \<Longrightarrow> es \<noteq> []"
  "RoomActionSchema_parse a = Inl es \<Longrightarrow> es \<noteq> []"
  "SceneActionSchema_parse a = Inl es \<Longrightarrow> es \<noteq> []"
proof -
  show l: "LightActionSchema_parse a = Inl es \<Longrightarrow> es \<noteq> []" for a es
  proof (cases a)
    case None
    assume "LightActionSchema_parse a = Inl es"
    with None show ?thesis by (auto simp: parse_None)
  next
    case (Some m)
    assume "LightActionSchema_parse a = Inl es"
    with Some Light_parse_bad [of m] Light_parse_ok [of m] show ?thesis
      by (cases "action_field_issues m = []") auto
  qed
  show "RoomActionSchema_parse a = Inl es \<Longrightarrow> es \<noteq> []"
    using l by (simp add: Room_parse_eq)
  show "SceneActionSchema_parse a = Inl es \<Longrightarrow> es \<noteq> []"
  proof (cases a)
    case None
    assume "SceneActionSchema_parse a = Inl es"
    with None show ?thesis by (auto simp: parse_None)
  next
    case (Some m)
    assume "SceneActionSchema_parse a = Inl es"
    with Some Scene_parse_bad [of m] Scene_parse_ok [of m] show ?thesis
      by (cases "scene_field_issues m = []") auto
  qed
qed

lemma CallTool_violations:
  assumes "validation_issues tool a \<noteq> []"
  shows "CallTool e tool a =
           (Inl (Error (''Invalid arguments: '' @ join '', '' (map format_issue (validation_issues tool a)))), [])"
proof -
  consider "tool = ''control-light''" | "tool = ''control-room''" | "tool = ''activate-scene''"
    using assms by (auto simp: validation_issues_def split: if_splits)
  then show ?thesis
  proof cases
    case 1
    with assms obtain es where "LightActionSchema_parse a = Inl es"
      by (cases "LightActionSchema_parse a") (auto simp: validation_issues_def issues_def)
    with 1 show ?thesis by (simp add: CallTool_invalid validation_issues_def issues_def)
  next
    case 2
    with assms obtain es where "RoomActionSchema_parse a = Inl es"
      by (cases "RoomActionSchema_parse a") (auto simp: validation_issues_def issues_def)
    with 2 show ?thesis by (simp add: CallTool_invalid validation_issues_def issues_def)
  next
    case 3
    with assms obtain es where "SceneActionSchema_parse a = Inl es"
      by (cases "SceneActionSchema_parse a") (auto simp: validation_issues_def issues_def)
    with 3 show ?thesis by (simp add: CallTool_invalid validation_issues_def issues_def)
  qed
qed

lemma issues_path:
  "i \<in> set (issues (z_string p v)) \<Longrightarrow> path i = p"
  "i \<in> set (issues (z_enum opts p v)) \<Longrightarrow> path i = p"
  "i \<in> set (issues (z_number_min_max lo hi p v)) \<Longrightarrow> path i = p"
  by (auto simp: issues_def z_string_def z_enum_def z_number_min_max_def invalid_type_def Let_def
      split: option.splits json.splits if_splits)

lemma issues_optional_path:
  "(\<And>i. i \<in> set (issues (f p v)) \<Longrightarrow> path i = p) \<Longrightarrow> i \<in> set (issues (z_optional f p v)) \<Longrightarrow> path i = p"
  by (auto simp: issues_def z_optional_def split: option.splits sum.splits)

lemma temperature_issues:
  "r < 153 \<Longrightarrow> issues (z_optional (z_number_min_max 153 500) p (Some (JNum r)))
      = [\<lparr>path = p, message = ''Number must be greater than or equal to 153''\<rparr>]"
  "500 < r \<Longrightarrow> issues (z_optional (z_number_min_max 153 500) p (Some (JNum r)))
      = [\<lparr>path = p, message = ''Number must be less than or equal to 500''\<rparr>]"
  "153 \<le> r \<Longrightarrow> r \<le> 500 \<Longrightarrow> issues (z_optional (z_number_min_max 153 500) p (Some (JNum r))) = []"
  "issues (z_optional (z_number_min_max 153 500) p None) = []"
  by (simp_all add: issues_def z_optional_def z_number_min_max_def Let_def digits_examples)

lemma sublist_format_issue:
  "i \<in> set es \<Longrightarrow> sublist (format_issue i) (join sep (map format_issue es))"
  by (rule sublist_join) auto

lemma action_tool_issues:
  assumes "tool = ''control-light'' \<or> tool = ''control-room''"
  shows "validation_issues tool (Some m) = action_field_issues m"
  using assms validation_issues_Some(1,2) [of m] by blast

lemma reported_issue:
  assumes "i \<in> set (validation_issues tool a)"
  shows "\<exists>msg. CallTool e tool a = (Inl (Error (''Invalid arguments: '' @ msg)), [])
            \<and> sublist (format_issue i) msg"
proof -
  from assms have ne: "validation_issues tool a \<noteq> []" by auto
  have "sublist (format_issue i) (join '', '' (map format_issue (validation_issues tool a)))"
    using assms by (rule sublist_format_issue)
  with CallTool_violations [OF ne, of e] show ?thesis by blast
qed

lemma temperature_low:
  assumes "tool = ''control-light'' \<or> tool = ''control-room''"
    and "m ''temperature'' = Some (JNum r)" and "r < 153"
  shows "\<exists>msg. CallTool e tool (Some m) = (Inl (Error (''Invalid arguments: '' @ msg)), [])
               \<and> sublist ''temperature: Number must be greater than or equal to 153'' msg"
proof -
  let ?i = "\<lparr>path = [''temperature''], message = ''Number must be greater than or equal to 153''\<rparr>"
  have "?i \<in> set (action_field_issues m)"
    unfolding action_field_issues_def using assms(2,3) by (simp add: temperature_issues(1))
  then have "?i \<in> set (validation_issues tool (Some m))"
    by (simp add: action_tool_issues [OF assms(1)])
  from reported_issue [OF this, of e] show ?thesis
    by (simp add: format_issue_def)
qed

lemma temperature_high:
  assumes "tool = ''control-light'' \<or> tool = ''control-room''"
    and "m ''temperature'' = Some (JNum r)" and "500 < r"
  shows "\<exists>msg. CallTool e tool (Some m) = (Inl (Error (''Invalid arguments: '' @ msg)), [])
               \<and> sublist ''temperature: Number must be less than or equal to 500'' msg"
proof -
  let ?i = "\<lparr>path = [''temperature''], message = ''Number must be less than or equal to 500''\<rparr>"
  have "?i \<in> set (action_field_issues m)"
    unfolding action_field_issues_def using assms(2,3) by (simp add: temperature_issues(2))
  then have "?i \<in> set (validation_issues tool (Some m))"
    by (simp add: action_tool_issues [OF assms(1)])
  from reported_issue [OF this, of e] show ?thesis
    by (simp add: format_issue_def)
qed

lemma optional_issue_paths:
  "i \<in> set (issues (z_optional (z_number_min_max lo hi) p v)) \<Longrightarrow> path i = p"
  "i \<in> set (issues (z_optional z_string p v)) \<Longrightarrow> path i = p"
  "i \<in> set (issues (z_optional (z_enum opts) p v)) \<Longrightarrow> path i = p"
  using issues_path(3) [of i lo hi p v] issues_path(1) [of i p v] issues_path(2) [of i opts p v]
  by (auto simp: issues_def z_optional_def split: option.splits sum.splits)

lemma action_issue_paths:
  assumes "i \<in> set (action_field_issues m)"
  shows "(path i = [''target''] \<and> i \<in> set (issues (z_string [''target''] (m ''target''))))
       \<or> (path i = [''action''] \<and> i \<in> set (issues (z_enum [''on'', ''off''] [''action''] (m ''action''))))
       \<or> (path i = [''brightness''] \<and> i \<in> set (issues (z_optional (z_number_min_max 0 100) [''brightness''] (m ''brightness''))))
       \<or> (path i = [''color''] \<and> i \<in> set (issues (z_optional z_string [''color''] (m ''color''))))
       \<or> (path i = [''temperature''] \<and> i \<in> set (issues (z_optional (z_number_min_max 153 500) [''temperature''] (m ''temperature''))))"
proof -
  from assms consider
      "i \<in> set (issues (z_string [''target''] (m ''target'')))"
    | "i \<in> set (issues (z_enum [''on'', ''off''] [''action''] (m ''action'')))"
    | "i \<in> set (issues (z_optional (z_number_min_max 0 100) [''brightness''] (m ''brightness'')))"
    | "i \<in> set (issues (z_optional z_string [''color''] (m ''color'')))"
    | "i \<in> set (issues (z_optional (z_number_min_max 153 500) [''temperature''] (m ''temperature'')))"
    unfolding action_field_issues_def set_append by blast
  then show ?thesis
  proof cases
    case 1
    with issues_path(1) show ?thesis by blast
  next
    case 2
    with issues_path(2) show ?thesis by blast
  next
    case 3
    with optional_issue_paths(1) show ?thesis by blast
  next
    case 4
    with optional_issue_paths(2) show ?thesis by blast
  next
    case 5
    with optional_issue_paths(1) show ?thesis by blast
  qed
qed

lemma temperature_in_range:
  assumes "tool = ''control-light'' \<or> tool = ''control-room''"
    and "m ''temperature'' = Some (JNum r)" and "153 \<le> r" and "r \<le> 500"
  shows "validation_issues tool (Some m) = validation_issues tool (Some (m(''temperature'' := None)))"
    and "\<forall>i \<in> set (validation_issues tool (Some m)). path i \<noteq> [''temperature'']"
proof -
  have none: "issues (z_optional (z_number_min_max 153 500) [''temperature''] (m ''temperature'')) = []"
    using assms(2-4) by (simp add: temperature_issues(3))
  show "validation_issues tool (Some m) = validation_issues tool (Some (m(''temperature'' := None)))"
    unfolding action_tool_issues [OF assms(1)] action_field_issues_def
    by (simp add: none temperature_issues(4))
  show "\<forall>i \<in> set (validation_issues tool (Some m)). path i \<noteq> [''temperature'']"
  proof
    fix i assume "i \<in> set (validation_issues tool (Some m))"
    then have "i \<in> set (action_field_issues m)"
      by (simp add: action_tool_issues [OF assms(1)])
    from action_issue_paths [OF this] show "path i \<noteq> [''temperature'']"
      unfolding none by auto
  qed
qed

section \<open>Facts about the action tools\<close>

lemma finish_success:
  assumes "spawn e (buildDockerCommand e c) = Exited 0 out []" and "length out \<le> maxBuffer"
  shows "finish (executeHueCommand e c) text = (Inr text, [buildDockerCommand e c])"
  using executeHueCommand_success [OF assms] by (simp add: finish_def)

lemma Light_parse_Inr_iff:
  "LightActionSchema_parse (Some m) = Inr p \<longleftrightarrow>
     z_string [''target''] (m ''target'') = Inr (target p)
     \<and> z_enum [''on'', ''off''] [''action''] (m ''action'') = Inr (action p)
     \<and> z_optional (z_number_min_max 0 100) [''brightness''] (m ''brightness'') = Inr (brightness p)
     \<and> z_optional z_string [''color''] (m ''color'') = Inr (color p)
     \<and> z_optional (z_number_min_max 153 500) [''temperature''] (m ''temperature'') = Inr (temperature p)"
  by (cases p) (auto simp: LightActionSchema_parse_def Let_def split: sum.splits)

lemma Scene_parse_Inr_iff:
  "SceneActionSchema_parse (Some m) = Inr q \<longleftrightarrow>
     z_string [''name''] (m ''name'') = Inr (name q)
     \<and> z_optional z_string [''room''] (m ''room'') = Inr (room q)
     \<and> z_optional (z_enum [''active'', ''dynamic'', ''static'']) [''mode''] (m ''mode'') = Inr (mode q)"
  by (cases q) (auto simp: SceneActionSchema_parse_def Let_def split: sum.splits)

lemma brightness_parsed:
  assumes "0 \<le> v" "v \<le> 100"
  shows "z_optional (z_number_min_max 0 100) p (Some (JNum v)) = Inr (Some v)"
    and "z_optional (z_number_min_max 0 100) p None = Inr None"
  using assms by (simp_all add: z_optional_def z_number_min_max_def Let_def)

lemma Light_parse_with_brightness:
  assumes "LightActionSchema_parse (Some (m(''brightness'' := None))) = Inr p" and "0 \<le> v" "v \<le> 100"
  shows "LightActionSchema_parse (Some (m(''brightness'' \<mapsto> JNum v))) = Inr (p\<lparr>brightness := Some v\<rparr>)"
    and "brightness p = None"
  using assms(1) brightness_parsed [OF assms(2,3), of "[''brightness'']"]
  by (simp_all add: Light_parse_Inr_iff)

lemma control_light_command_brightness:
  \<open>control_light_command e p =
     ''set light "'' @ target p @ ''" --'' @ action p
     @ (case brightness p of Some b \<Rightarrow> '' --brightness '' @ Number_toString e b | None \<Rightarrow> [])
     @ (case color p of Some c \<Rightarrow> if c \<noteq> [] then '' --color '' @ c else [] | None \<Rightarrow> [])
     @ (case temperature p of
          Some t \<Rightarrow> if t \<noteq> 0 then '' --temperature '' @ Number_toString e t else []
        | None \<Rightarrow> [])\<close>
  by (simp add: control_light_command_def Let_def split: option.splits)

lemma control_room_command_brightness:
  \<open>control_room_command e p =
     ''set room "'' @ target p @ ''" --'' @ action p
     @ (case brightness p of Some b \<Rightarrow> '' --brightness '' @ Number_toString e b | None \<Rightarrow> [])
     @ (case color p of Some c \<Rightarrow> if c \<noteq> [] then '' --color '' @ c else [] | None \<Rightarrow> [])
     @ (case temperature p of
          Some t \<Rightarrow> if t \<noteq> 0 then '' --temperature '' @ Number_toString e t else []
        | None \<Rightarrow> [])\<close>
  by (simp add: control_room_command_def Let_def split: option.splits)

lemma snd_finish [simp]: "snd (finish (executeHueCommand e c) text) = [buildDockerCommand e c]"
  using executeHueCommand_cases [of e c]
  by (cases "executeHueCommand e c") (auto simp: finish_def dest: arg_cong [where f = snd])

lemma Number_toString_whole:
  assumes "n \<le> 100"
  shows "Number_toString e (of_nat n) = digits n"
proof -
  have "\<bar>of_nat n :: rat\<bar> \<le> 100" using assms by simp
  also have "(100 :: rat) \<le> 2 ^ 53" by simp
  finally show ?thesis by (simp add: Number_toString_def)
qed

lemma not_string_issue:
  assumes "\<forall>s. v \<noteq> Some (JStr s)"
  shows "issues (z_string p v) = [invalid_type p ''string'' v]"
  using assms by (auto simp: issues_def z_string_def split: option.splits json.splits)

lemma present_not_string_issue:
  assumes "v \<noteq> None" and "\<forall>s. v \<noteq> Some (JStr s)"
  shows "issues (z_optional z_string p v) = [invalid_type p ''string'' v]"
  using assms by (auto simp: issues_def z_optional_def z_string_def split: option.splits json.splits)

section \<open>The advertised schemas of the action tools agree with validation\<close>

text \<open>
  For \<^verbatim>\<open>control-light\<close>, \<^verbatim>\<open>control-room\<close> and \<^verbatim>\<open>activate-scene\<close> the advertised schema
  admits exactly the bags in which validation finds no violation.
\<close>

lemma string_field_ok:
  "issues (z_string p v) = [] \<longleftrightarrow> (\<exists>s. v = Some (JStr s))"
  "issues (z_optional z_string p v) = [] \<longleftrightarrow> v = None \<or> (\<exists>s. v = Some (JStr s))"
  by (auto simp: issues_Nil_iff z_string_Inr_iff z_optional_Inr_iff)

lemma enum_field_ok:
  "issues (z_enum opts p v) = [] \<longleftrightarrow> (\<exists>s. v = Some (JStr s) \<and> s \<in> set opts)"
  "issues (z_optional (z_enum opts) p v) = [] \<longleftrightarrow> v = None \<or> (\<exists>s. v = Some (JStr s) \<and> s \<in> set opts)"
  by (auto simp: issues_Nil_iff z_enum_Inr_iff z_optional_Inr_iff)

lemma number_field_ok:
  "issues (z_optional (z_number_min_max lo hi) p v) = []
     \<longleftrightarrow> v = None \<or> (\<exists>r. v = Some (JNum r) \<and> of_nat lo \<le> r \<and> r \<le> of_nat hi)"
  by (auto simp: issues_Nil_iff z_number_Inr_iff z_optional_Inr_iff)

lemma action_schema_accepts:
  "schema_accepts (ListTools ! 1) (Some m) \<longleftrightarrow> action_field_issues m = []"
  "schema_accepts (ListTools ! 3) (Some m) \<longleftrightarrow> action_field_issues m = []"
  unfolding action_field_issues_def append_is_Nil_conv string_field_ok enum_field_ok number_field_ok
  by (auto simp: schema_accepts_def ListTools_def field_def property_accepts_def string_property_def
      enum_property_def number_property_def split: option.splits json.splits)

lemma scene_schema_accepts:
  "schema_accepts (ListTools ! 5) (Some m) \<longleftrightarrow> scene_field_issues m = []"
  unfolding scene_field_issues_def append_is_Nil_conv string_field_ok enum_field_ok
  by (auto simp: schema_accepts_def ListTools_def field_def property_accepts_def string_property_def
      enum_property_def split: option.splits json.splits)

lemma tools_found:
  "find_tool ''control-light'' = Some (ListTools ! 1)"
  "find_tool ''control-room'' = Some (ListTools ! 3)"
  "find_tool ''activate-scene'' = Some (ListTools ! 5)"
  by (simp_all add: find_tool_def ListTools_def)

lemma action_tools_schema_matches_validation:
  assumes "tool = ''control-light'' \<or> tool = ''control-room'' \<or> tool = ''activate-scene''"
    and "find_tool tool = Some t"
  shows "schema_accepts t a \<longleftrightarrow> validation_issues tool a = []"
proof (cases a)
  case None
  have "\<not> schema_accepts (ListTools ! 1) None" "\<not> schema_accepts (ListTools ! 3) None"
    "\<not> schema_accepts (ListTools ! 5) None"
    by (simp_all add: schema_accepts_def ListTools_def field_def)
  moreover have "validation_issues ''control-light'' None \<noteq> []"
    "validation_issues ''control-room'' None \<noteq> []"
    "validation_issues ''activate-scene'' None \<noteq> []"
    by (simp_all add: validation_issues_def parse_None issues_def)
  ultimately show ?thesis
    using assms None tools_found by auto
next
  case (Some m)
  from assms(1) consider "tool = ''control-light''" | "tool = ''control-room''" | "tool = ''activate-scene''"
    by blast
  then show ?thesis
  proof cases
    case 1
    with assms(2) have "t = ListTools ! 1" by (simp add: tools_found(1))
    with 1 Some action_schema_accepts(1) [of m] show ?thesis
      by (simp only: validation_issues_Some)
  next
    case 2
    with assms(2) have "t = ListTools ! 3" by (simp add: tools_found(2))
    with 2 Some action_schema_accepts(2) [of m] show ?thesis
      by (simp only: validation_issues_Some)
  next
    case 3
    with assms(2) have "t = ListTools ! 5" by (simp add: tools_found(3))
    with 3 Some scene_schema_accepts [of m] show ?thesis
      by (simp only: validation_issues_Some)
  qed
qed

section \<open>What double quotes achieve\<close>

text \<open>
  A value wrapped in double quotes is read back by the shell as one word, blanks
  included, as long as it holds no double quote, dollar sign, backquote or backslash.
\<close>

lemma sh_split_quoted_text:
  assumes "\<forall>c \<in> set v. \<not> dq_special c"
  shows "sh_split True True cur (v @ rest) = sh_split True True (cur @ v) rest"
  using assms
proof (induction v arbitrary: cur)
  case Nil
  then show ?case by simp
next
  case (Cons c v)
  then have "\<not> dq_special c" "c \<noteq> CHR 0x22"
    by (auto simp: dq_special_def)
  with Cons show ?case by simp
qed

lemma quoted_scene_name_read_back:
  assumes "\<forall>c \<in> set (configPath e). \<not> dq_special c"
    and "\<forall>c \<in> set n. \<not> dq_special c" and "\<forall>c \<in> set r. \<not> dq_special c" and "r \<noteq> []"
  shows "sh_words (buildDockerCommand e (activate_scene_command \<lparr>name = n, room = None, mode = None\<rparr>))
       = Some [''docker'', ''run'', ''-v'', configPath e @ '':/.openhue'', ''--rm'', ''openhue/cli'',
               ''set'', ''scene'', n]"
    and "sh_words (buildDockerCommand e (activate_scene_command \<lparr>name = n, room = Some r, mode = None\<rparr>))
       = Some [''docker'', ''run'', ''-v'', configPath e @ '':/.openhue'', ''--rm'', ''openhue/cli'',
               ''set'', ''scene'', n, ''--room'', r]"
proof -
  have cfg: "sh_split True True [] (configPath e @ rest) = sh_split True True (configPath e) rest" for rest
    using sh_split_quoted_text [OF assms(1), of "[]" rest] by simp
  have nm: "sh_split True True [] (n @ rest) = sh_split True True n rest" for rest
    using sh_split_quoted_text [OF assms(2), of "[]" rest] by simp
  have rm: "sh_split True True [] (r @ rest) = sh_split True True r rest" for rest
    using sh_split_quoted_text [OF assms(3), of "[]" rest] by simp
  show "sh_words (buildDockerCommand e (activate_scene_command \<lparr>name = n, room = None, mode = None\<rparr>))
       = Some [''docker'', ''run'', ''-v'', configPath e @ '':/.openhue'', ''--rm'', ''openhue/cli'',
               ''set'', ''scene'', n]"
    by (simp add: sh_words_def buildDockerCommand_def activate_scene_command_def
        sh_blank_def sh_special_def sh_word_start_special_def dq_special_def cfg nm)
  show "sh_words (buildDockerCommand e (activate_scene_command \<lparr>name = n, room = Some r, mode = None\<rparr>))
       = Some [''docker'', ''run'', ''-v'', configPath e @ '':/.openhue'', ''--rm'', ''openhue/cli'',
               ''set'', ''scene'', n, ''--room'', r]"
    using assms(4)
    by (simp add: sh_words_def buildDockerCommand_def activate_scene_command_def
        sh_blank_def sh_special_def sh_word_start_special_def dq_special_def cfg nm rm)
qed

lemma quoted_light_target_read_back:
  assumes "\<forall>c \<in> set (configPath e). \<not> dq_special c" and "\<forall>c \<in> set t. \<not> dq_special c"
  shows "sh_words (buildDockerCommand e (control_light_command e
            \<lparr>target = t, action = ''on'', brightness = None, color = None, temperature = None\<rparr>))
       = Some [''docker'', ''run'', ''-v'', configPath e @ '':/.openhue'', ''--rm'', ''openhue/cli'',
               ''set'', ''light'', t, ''--on'']"
proof -
  have cfg: "sh_split True True [] (configPath e @ rest) = sh_split True True (configPath e) rest" for rest
    using sh_split_quoted_text [OF assms(1), of "[]" rest] by simp
  have tg: "sh_split True True [] (t @ rest) = sh_split True True t rest" for rest
    using sh_split_quoted_text [OF assms(2), of "[]" rest] by simp
  show ?thesis
    by (simp add: sh_words_def buildDockerCommand_def control_light_command_def
        sh_blank_def sh_special_def sh_word_start_special_def dq_special_def cfg tg)
qed

section \<open>The read tools build the documented command lines\<close>

text \<open>
  Claim C9. \<^verbatim>\<open>get-lights\<close> without arguments (an absent bag or an empty one) runs
  \<^verbatim>\<open>get light --json\<close> behind the fixed container-run prefix; with \<^verbatim>\<open>lightId\<close>
  \<^verbatim>\<open>Desk Lamp\<close> and \<^verbatim>\<open>room\<close> \<^verbatim>\<open>Office\<close> it builds the identifier, then the
  \<^verbatim>\<open>--room\<close> flag, then the trailing \<^verbatim>\<open>--json\<close>, in that order.
\<close>

theorem get_lights_command_examples:
  \<open>snd (CallTool e ''get-lights'' None)
     = [''docker run -v "'' @ configPath e @ '':/.openhue" --rm openhue/cli get light --json'']
   \<and> snd (CallTool e ''get-lights'' (Some Map.empty))
     = [''docker run -v "'' @ configPath e @ '':/.openhue" --rm openhue/cli get light --json'']
   \<and> get_lights_command e (Some [''lightId'' \<mapsto> JStr ''Desk Lamp'', ''room'' \<mapsto> JStr ''Office''])
     = Inr ''get light "Desk Lamp" --room "Office" --json''
   \<and> snd (CallTool e ''get-lights'' (Some [''lightId'' \<mapsto> JStr ''Desk Lamp'', ''room'' \<mapsto> JStr ''Office'']))
     = [''docker run -v "'' @ configPath e
        @ '':/.openhue" --rm openhue/cli get light "Desk Lamp" --room "Office" --json'']\<close>
proof -
  have none: \<open>get_lights_command e None = Inr ''get light --json''\<close>
    and empty: \<open>get_lights_command e (Some Map.empty) = Inr ''get light --json''\<close>
    and both: \<open>get_lights_command e (Some [''lightId'' \<mapsto> JStr ''Desk Lamp'', ''room'' \<mapsto> JStr ''Office''])
       = Inr ''get light "Desk Lamp" --room "Office" --json''\<close>
    by (simp_all add: get_lights_command_def append_quoted_def field_def)
  show ?thesis
    by (simp add: CallTool_get_lights(1) [OF none] CallTool_get_lights(1) [OF empty]
        CallTool_get_lights(1) [OF both] both buildDockerCommand_def)
qed

theorem get_lights_command_examples_witness:
  \<open>snd (CallTool quiet_env ''get-lights'' None)
     = [''docker run -v "/home/user/.openhue:/.openhue" --rm openhue/cli get light --json'']\<close>
  using get_lights_command_examples [of quiet_env]
  by (simp add: quiet_env_def)

section \<open>Truthiness of the colour, definedness of the brightness\<close>



section \<open>A failing subprocess\<close>






section \<open>The temperature range\<close>

text \<open>
  Claim C7. For \<^verbatim>\<open>control-light\<close> and \<^verbatim>\<open>control-room\<close>, a temperature below 153 or above
  500 makes validation fail with an \<^verbatim>\<open>Invalid arguments\<close> error that names the
  \<^verbatim>\<open>temperature\<close> field, and no command is run; a temperature from 153 to 500, both
  bounds included, adds no violation: the bag has exactly the violations it has without
  the temperature, none of them at the \<^verbatim>\<open>temperature\<close> path.
\<close>

theorem temperature_range_enforced:
  assumes "tool = ''control-light'' \<or> tool = ''control-room''"
    and "m ''temperature'' = Some (JNum r)"
  shows "(r < 153 \<longrightarrow>
            (\<exists>msg. CallTool e tool (Some m) = (Inl (Error (''Invalid arguments: '' @ msg)), [])
               \<and> sublist ''temperature: Number must be greater than or equal to 153'' msg))
       \<and> (500 < r \<longrightarrow>
            (\<exists>msg. CallTool e tool (Some m) = (Inl (Error (''Invalid arguments: '' @ msg)), [])
               \<and> sublist ''temperature: Number must be less than or equal to 500'' msg))
       \<and> (153 \<le> r \<and> r \<le> 500 \<longrightarrow>
            validation_issues tool (Some m) = validation_issues tool (Some (m(''temperature'' := None)))
            \<and> (\<forall>i \<in> set (validation_issues tool (Some m)). path i \<noteq> [''temperature'']))"
proof (intro conjI impI)
  assume "r < 153"
  with assms show "\<exists>msg. CallTool e tool (Some m) = (Inl (Error (''Invalid arguments: '' @ msg)), [])
               \<and> sublist ''temperature: Number must be greater than or equal to 153'' msg"
    by (rule temperature_low)
next
  assume "500 < r"
  with assms show "\<exists>msg. CallTool e tool (Some m) = (Inl (Error (''Invalid arguments: '' @ msg)), [])
               \<and> sublist ''temperature: Number must be less than or equal to 500'' msg"
    by (rule temperature_high)
next
  assume "153 \<le> r \<and> r \<le> 500"
  with assms show "validation_issues tool (Some m) = validation_issues tool (Some (m(''temperature'' := None)))"
    using temperature_in_range(1) by blast
next
  assume "153 \<le> r \<and> r \<le> 500"
  with assms show "\<forall>i \<in> set (validation_issues tool (Some m)). path i \<noteq> [''temperature'']"
    using temperature_in_range(2) by blast
qed

theorem temperature_range_enforced_witness:
  "(\<exists>msg. CallTool quiet_env ''control-light''
             (Some [''target'' \<mapsto> JStr ''Desk Lamp'', ''action'' \<mapsto> JStr ''on'', ''temperature'' \<mapsto> JNum 152])
           = (Inl (Error (''Invalid arguments: '' @ msg)), [])
         \<and> sublist ''temperature: Number must be greater than or equal to 153'' msg)
   \<and> validation_issues ''control-light''
        (Some [''target'' \<mapsto> JStr ''Desk Lamp'', ''action'' \<mapsto> JStr ''on'', ''temperature'' \<mapsto> JNum 153]) = []
   \<and> validation_issues ''control-room''
        (Some [''target'' \<mapsto> JStr ''Office'', ''action'' \<mapsto> JStr ''off'', ''temperature'' \<mapsto> JNum 500]) = []"
proof (intro conjI)
  have light: "''control-light'' = ''control-light'' \<or> ''control-light'' = ''control-room''" by simp
  let ?m = "[''target'' \<mapsto> JStr ''Desk Lamp'', ''action'' \<mapsto> JStr ''on'', ''temperature'' \<mapsto> JNum 152]"
  have "?m ''temperature'' = Some (JNum 152)" by simp
  from temperature_range_enforced [where tool = "''control-light''" and m = ?m and r = 152 and e = quiet_env, OF light this]
  show "\<exists>msg. CallTool quiet_env ''control-light'' (Some ?m) = (Inl (Error (''Invalid arguments: '' @ msg)), [])
         \<and> sublist ''temperature: Number must be greater than or equal to 153'' msg"
    by simp
next
  have light: "''control-light'' = ''control-light'' \<or> ''control-light'' = ''control-room''" by simp
  let ?m = "[''target'' \<mapsto> JStr ''Desk Lamp'', ''action'' \<mapsto> JStr ''on'', ''temperature'' \<mapsto> JNum 153]"
  have "?m ''temperature'' = Some (JNum 153)" by simp
  from temperature_range_enforced [where tool = "''control-light''" and m = ?m and r = 153 and e = quiet_env, OF light this]
  have "validation_issues ''control-light'' (Some ?m)
      = validation_issues ''control-light'' (Some (?m(''temperature'' := None)))" by simp
  also have "\<dots> = []"
    by (simp add: validation_issues_Some action_field_issues_def field_parser_defs)
  finally show "validation_issues ''control-light'' (Some ?m) = []" .
next
  have room: "''control-room'' = ''control-light'' \<or> ''control-room'' = ''control-room''" by simp
  let ?m = "[''target'' \<mapsto> JStr ''Office'', ''action'' \<mapsto> JStr ''off'', ''temperature'' \<mapsto> JNum 500]"
  have "?m ''temperature'' = Some (JNum 500)" by simp
  from temperature_range_enforced [where tool = "''control-room''" and m = ?m and r = 500 and e = quiet_env, OF room this]
  have "validation_issues ''control-room'' (Some ?m)
      = validation_issues ''control-room'' (Some (?m(''temperature'' := None)))" by simp
  also have "\<dots> = []"
    by (simp add: validation_issues_Some action_field_issues_def field_parser_defs)
  finally show "validation_issues ''control-room'' (Some ?m) = []" .
qed

section \<open>Confirmations of the action tools\<close>

text \<open>
  Claim C3, as amended. For \<^verbatim>\<open>control-light\<close>, \<^verbatim>\<open>control-room\<close> and
  \<^verbatim>\<open>activate-scene\<close>, a call that validates and whose command exits with status 0, an
  empty standard error and an output within the 1 MiB buffer of \<^verbatim>\<open>exec\<close> returns a
  fixed confirmation, whatever the command printed: for
  the two control tools it names the target and the action, for \<^verbatim>\<open>activate-scene\<close> it
  names the scene and nothing else. \<^verbatim>\<open>control-light\<close> with target \<^verbatim>\<open>Desk Lamp\<close>, action
  \<^verbatim>\<open>on\<close> and brightness 50 validates and builds
  \<^verbatim>\<open>set light "Desk Lamp" --on --brightness 50\<close>.
\<close>

theorem action_tools_confirm:
  \<open>(LightActionSchema_parse a = Inr p
      \<and> spawn e (buildDockerCommand e (control_light_command e p)) = Exited 0 out []
      \<and> length out \<le> maxBuffer
      \<longrightarrow> CallTool e ''control-light'' a
            = (Inr (''Successfully set light "'' @ target p @ ''" to '' @ action p),
               [buildDockerCommand e (control_light_command e p)]))
   \<and> (RoomActionSchema_parse a = Inr p
      \<and> spawn e (buildDockerCommand e (control_room_command e p)) = Exited 0 out []
      \<and> length out \<le> maxBuffer
      \<longrightarrow> CallTool e ''control-room'' a
            = (Inr (''Successfully set room "'' @ target p @ ''" to '' @ action p),
               [buildDockerCommand e (control_room_command e p)]))
   \<and> (SceneActionSchema_parse a = Inr q
      \<and> spawn e (buildDockerCommand e (activate_scene_command q)) = Exited 0 out []
      \<and> length out \<le> maxBuffer
      \<longrightarrow> CallTool e ''activate-scene'' a
            = (Inr (''Successfully activated scene "'' @ name q @ ''"''),
               [buildDockerCommand e (activate_scene_command q)]))
   \<and> LightActionSchema_parse
        (Some [''target'' \<mapsto> JStr ''Desk Lamp'', ''action'' \<mapsto> JStr ''on'', ''brightness'' \<mapsto> JNum 50])
       = Inr \<lparr>target = ''Desk Lamp'', action = ''on'', brightness = Some 50, color = None,
              temperature = None\<rparr>
   \<and> control_light_command e
        \<lparr>target = ''Desk Lamp'', action = ''on'', brightness = Some 50, color = None,
         temperature = None\<rparr>
       = ''set light "Desk Lamp" --on --brightness 50''\<close>
proof (intro conjI impI)
  assume "LightActionSchema_parse a = Inr p
      \<and> spawn e (buildDockerCommand e (control_light_command e p)) = Exited 0 out []
      \<and> length out \<le> maxBuffer"
  then show \<open>CallTool e ''control-light'' a
            = (Inr (''Successfully set light "'' @ target p @ ''" to '' @ action p),
               [buildDockerCommand e (control_light_command e p)])\<close>
    by (simp add: CallTool_control_light finish_success)
next
  assume "RoomActionSchema_parse a = Inr p
      \<and> spawn e (buildDockerCommand e (control_room_command e p)) = Exited 0 out []
      \<and> length out \<le> maxBuffer"
  then show \<open>CallTool e ''control-room'' a
            = (Inr (''Successfully set room "'' @ target p @ ''" to '' @ action p),
               [buildDockerCommand e (control_room_command e p)])\<close>
    by (simp add: CallTool_control_room finish_success)
next
  assume "SceneActionSchema_parse a = Inr q
      \<and> spawn e (buildDockerCommand e (activate_scene_command q)) = Exited 0 out []
      \<and> length out \<le> maxBuffer"
  then show \<open>CallTool e ''activate-scene'' a
            = (Inr (''Successfully activated scene "'' @ name q @ ''"''),
               [buildDockerCommand e (activate_scene_command q)])\<close>
    by (simp add: CallTool_activate_scene finish_success)
next
  show "LightActionSchema_parse
        (Some [''target'' \<mapsto> JStr ''Desk Lamp'', ''action'' \<mapsto> JStr ''on'', ''brightness'' \<mapsto> JNum 50])
       = Inr \<lparr>target = ''Desk Lamp'', action = ''on'', brightness = Some 50, color = None,
              temperature = None\<rparr>"
    by (simp add: LightActionSchema_parse_def field_parser_defs)
next
  show \<open>control_light_command e
        \<lparr>target = ''Desk Lamp'', action = ''on'', brightness = Some 50, color = None,
         temperature = None\<rparr>
       = ''set light "Desk Lamp" --on --brightness 50''\<close>
    by (simp add: control_light_command_def Number_toString_50)
qed

theorem action_tools_confirm_witness:
  \<open>CallTool quiet_env ''control-light''
      (Some [''target'' \<mapsto> JStr ''Desk Lamp'', ''action'' \<mapsto> JStr ''on'', ''brightness'' \<mapsto> JNum 50])
    = (Inr ''Successfully set light "Desk Lamp" to on'',
       [''docker run -v "/home/user/.openhue:/.openhue" --rm openhue/cli set light "Desk Lamp" --on --brightness 50''])\<close>
proof -
  let ?a = "Some [''target'' \<mapsto> JStr ''Desk Lamp'', ''action'' \<mapsto> JStr ''on'', ''brightness'' \<mapsto> JNum 50]"
  let ?p = "\<lparr>target = ''Desk Lamp'', action = ''on'', brightness = Some 50, color = None, temperature = None\<rparr>"
  note all = action_tools_confirm [where a = ?a and p = ?p and e = quiet_env and out = "''[]''"]
  have parse: "LightActionSchema_parse ?a = Inr ?p"
    by (rule all [THEN conjunct2, THEN conjunct2, THEN conjunct2, THEN conjunct1])
  have ok: "spawn quiet_env c = Exited 0 ''[]'' []" for c
    by (simp add: quiet_env_def)
  have len: "length ''[]'' \<le> maxBuffer"
    by (simp add: maxBuffer_def)
  from all [THEN conjunct1] parse ok len
  have \<open>CallTool quiet_env ''control-light'' ?a
      = (Inr (''Successfully set light "'' @ target ?p @ ''" to '' @ action ?p),
         [buildDockerCommand quiet_env (control_light_command quiet_env ?p)])\<close>
    by blast
  moreover have "configPath quiet_env = ''/home/user/.openhue''"
    by (simp add: quiet_env_def)
  ultimately show ?thesis
    by (simp add: all [THEN conjunct2, THEN conjunct2, THEN conjunct2, THEN conjunct2]
        buildDockerCommand_def)
qed

text \<open>
  The claim as stated also asks that an \<^verbatim>\<open>activate-scene\<close> call with a mode be
  confirmed by a message naming the mode. The mode reaches the command line, not the
  confirmation.
\<close>

theorem scene_confirmation_omits_mode:
  \<open>fst (CallTool quiet_env ''activate-scene''
          (Some [''name'' \<mapsto> JStr ''Relaxing'', ''mode'' \<mapsto> JStr ''dynamic'']))
     = Inr ''Successfully activated scene "Relaxing"''
   \<and> snd (CallTool quiet_env ''activate-scene''
          (Some [''name'' \<mapsto> JStr ''Relaxing'', ''mode'' \<mapsto> JStr ''dynamic'']))
     = [''docker run -v "/home/user/.openhue:/.openhue" --rm openhue/cli set scene "Relaxing" --action dynamic'']
   \<and> \<not> sublist ''dynamic'' ''Successfully activated scene "Relaxing"''\<close>
proof (intro conjI)
  have parse: "SceneActionSchema_parse (Some [''name'' \<mapsto> JStr ''Relaxing'', ''mode'' \<mapsto> JStr ''dynamic''])
      = Inr \<lparr>name = ''Relaxing'', room = None, mode = Some ''dynamic''\<rparr>"
    by (simp add: SceneActionSchema_parse_def field_parser_defs)
  have ok: "spawn quiet_env c = Exited 0 ''[]'' []" for c
    by (simp add: quiet_env_def)
  have len: "length ''[]'' \<le> maxBuffer"
    by (simp add: maxBuffer_def)
  have cfg: "configPath quiet_env = ''/home/user/.openhue''"
    by (simp add: quiet_env_def)
  have call: \<open>CallTool quiet_env ''activate-scene''
          (Some [''name'' \<mapsto> JStr ''Relaxing'', ''mode'' \<mapsto> JStr ''dynamic''])
     = (Inr ''Successfully activated scene "Relaxing"'',
        [''docker run -v "/home/user/.openhue:/.openhue" --rm openhue/cli set scene "Relaxing" --action dynamic''])\<close>
    by (simp add: CallTool_activate_scene [OF parse] finish_success [OF ok len] activate_scene_command_def
        buildDockerCommand_def cfg)
  show \<open>fst (CallTool quiet_env ''activate-scene''
          (Some [''name'' \<mapsto> JStr ''Relaxing'', ''mode'' \<mapsto> JStr ''dynamic'']))
     = Inr ''Successfully activated scene "Relaxing"''\<close>
    by (simp add: call)
  show \<open>snd (CallTool quiet_env ''activate-scene''
          (Some [''name'' \<mapsto> JStr ''Relaxing'', ''mode'' \<mapsto> JStr ''dynamic'']))
     = [''docker run -v "/home/user/.openhue:/.openhue" --rm openhue/cli set scene "Relaxing" --action dynamic'']\<close>
    by (simp add: call)
  show \<open>\<not> sublist ''dynamic'' ''Successfully activated scene "Relaxing"''\<close>
    by code_simp
qed

section \<open>The brightness flag\<close>

text \<open>
  What the brightness branch does. For \<^verbatim>\<open>control-light\<close> and \<^verbatim>\<open>control-room\<close> and a bag
  that is valid without its brightness: with a brightness \<open>v\<close> from 0 to 100 (0 included)
  the command run is the target and action, then the fragment \<^verbatim>\<open>--brightness v\<close>, then the
  colour and temperature fragments; with the brightness left out it is the same command
  without that fragment. A whole \<open>v\<close> is printed as its decimal digits.
\<close>

lemma brightness_fragment_appended_once:
  assumes "0 \<le> v" and "v \<le> 100"
  shows
  \<open>(LightActionSchema_parse (Some (m(''brightness'' := None))) = Inr p \<longrightarrow>
       snd (CallTool e ''control-light'' (Some (m(''brightness'' \<mapsto> JNum v))))
         = [buildDockerCommand e
              (''set light "'' @ target p @ ''" --'' @ action p
               @ '' --brightness '' @ Number_toString e v
               @ (case color p of Some c \<Rightarrow> if c \<noteq> [] then '' --color '' @ c else [] | None \<Rightarrow> [])
               @ (case temperature p of
                    Some t \<Rightarrow> if t \<noteq> 0 then '' --temperature '' @ Number_toString e t else []
                  | None \<Rightarrow> []))]
       \<and> snd (CallTool e ''control-light'' (Some (m(''brightness'' := None))))
         = [buildDockerCommand e
              (''set light "'' @ target p @ ''" --'' @ action p
               @ (case color p of Some c \<Rightarrow> if c \<noteq> [] then '' --color '' @ c else [] | None \<Rightarrow> [])
               @ (case temperature p of
                    Some t \<Rightarrow> if t \<noteq> 0 then '' --temperature '' @ Number_toString e t else []
                  | None \<Rightarrow> []))])
   \<and> (RoomActionSchema_parse (Some (m(''brightness'' := None))) = Inr p \<longrightarrow>
       snd (CallTool e ''control-room'' (Some (m(''brightness'' \<mapsto> JNum v))))
         = [buildDockerCommand e
              (''set room "'' @ target p @ ''" --'' @ action p
               @ '' --brightness '' @ Number_toString e v
               @ (case color p of Some c \<Rightarrow> if c \<noteq> [] then '' --color '' @ c else [] | None \<Rightarrow> [])
               @ (case temperature p of
                    Some t \<Rightarrow> if t \<noteq> 0 then '' --temperature '' @ Number_toString e t else []
                  | None \<Rightarrow> []))]
       \<and> snd (CallTool e ''control-room'' (Some (m(''brightness'' := None))))
         = [buildDockerCommand e
              (''set room "'' @ target p @ ''" --'' @ action p
               @ (case color p of Some c \<Rightarrow> if c \<noteq> [] then '' --color '' @ c else [] | None \<Rightarrow> [])
               @ (case temperature p of
                    Some t \<Rightarrow> if t \<noteq> 0 then '' --temperature '' @ Number_toString e t else []
                  | None \<Rightarrow> []))])
   \<and> (\<forall>n. v = of_nat n \<longrightarrow> Number_toString e v = digits n)\<close>
proof (intro conjI impI allI)
  assume ok: "LightActionSchema_parse (Some (m(''brightness'' := None))) = Inr p"
  note added = Light_parse_with_brightness [OF ok assms]
  show \<open>snd (CallTool e ''control-light'' (Some (m(''brightness'' \<mapsto> JNum v))))
         = [buildDockerCommand e
              (''set light "'' @ target p @ ''" --'' @ action p
               @ '' --brightness '' @ Number_toString e v
               @ (case color p of Some c \<Rightarrow> if c \<noteq> [] then '' --color '' @ c else [] | None \<Rightarrow> [])
               @ (case temperature p of
                    Some t \<Rightarrow> if t \<noteq> 0 then '' --temperature '' @ Number_toString e t else []
                  | None \<Rightarrow> []))]\<close>
    by (simp add: CallTool_control_light [OF added(1)] control_light_command_brightness)
  show \<open>snd (CallTool e ''control-light'' (Some (m(''brightness'' := None))))
         = [buildDockerCommand e
              (''set light "'' @ target p @ ''" --'' @ action p
               @ (case color p of Some c \<Rightarrow> if c \<noteq> [] then '' --color '' @ c else [] | None \<Rightarrow> [])
               @ (case temperature p of
                    Some t \<Rightarrow> if t \<noteq> 0 then '' --temperature '' @ Number_toString e t else []
                  | None \<Rightarrow> []))]\<close>
    by (simp add: CallTool_control_light [OF ok] control_light_command_brightness added(2))
next
  assume "RoomActionSchema_parse (Some (m(''brightness'' := None))) = Inr p"
  then have ok: "LightActionSchema_parse (Some (m(''brightness'' := None))) = Inr p"
    by (simp add: Room_parse_eq)
  note added = Light_parse_with_brightness [OF ok assms]
  have ok': "RoomActionSchema_parse (Some (m(''brightness'' := None))) = Inr p"
    and added_room: "RoomActionSchema_parse (Some (m(''brightness'' \<mapsto> JNum v))) = Inr (p\<lparr>brightness := Some v\<rparr>)"
    using ok added(1) by (simp_all add: Room_parse_eq)
  show \<open>snd (CallTool e ''control-room'' (Some (m(''brightness'' \<mapsto> JNum v))))
         = [buildDockerCommand e
              (''set room "'' @ target p @ ''" --'' @ action p
               @ '' --brightness '' @ Number_toString e v
               @ (case color p of Some c \<Rightarrow> if c \<noteq> [] then '' --color '' @ c else [] | None \<Rightarrow> [])
               @ (case temperature p of
                    Some t \<Rightarrow> if t \<noteq> 0 then '' --temperature '' @ Number_toString e t else []
                  | None \<Rightarrow> []))]\<close>
    by (simp add: CallTool_control_room [OF added_room] control_room_command_brightness)
  show \<open>snd (CallTool e ''control-room'' (Some (m(''brightness'' := None))))
         = [buildDockerCommand e
              (''set room "'' @ target p @ ''" --'' @ action p
               @ (case color p of Some c \<Rightarrow> if c \<noteq> [] then '' --color '' @ c else [] | None \<Rightarrow> [])
               @ (case temperature p of
                    Some t \<Rightarrow> if t \<noteq> 0 then '' --temperature '' @ Number_toString e t else []
                  | None \<Rightarrow> []))]\<close>
    by (simp add: CallTool_control_room [OF ok'] control_room_command_brightness added(2))
next
  fix n assume v: "v = of_nat n"
  with assms(2) have "n \<le> 100"
    by (metis of_nat_le_iff of_nat_numeral)
  then show "Number_toString e v = digits n"
    unfolding v by (rule Number_toString_whole)
qed

text \<open>
  Claim C8 asks for exactly one \<^verbatim>\<open>--brightness v\<close> flag in the command when a
  brightness from 0 to 100 is given, and for none when it is left out. The colour is
  appended to the command line without quotes, so its text is read by the shell as
  further words: with the colour \<^verbatim>\<open>red --brightness 7\<close> the command has a
  \<^verbatim>\<open>--brightness\<close> word although no brightness was given, and two of them when the
  brightness is 50.
\<close>

theorem color_text_adds_brightness_words:
  \<open>snd (CallTool quiet_env ''control-light''
          (Some [''target'' \<mapsto> JStr ''Desk Lamp'', ''action'' \<mapsto> JStr ''on'',
                 ''color'' \<mapsto> JStr ''red --brightness 7'']))
     = [''docker run -v "/home/user/.openhue:/.openhue" --rm openhue/cli set light "Desk Lamp" --on --color red --brightness 7'']
   \<and> sh_words ''docker run -v "/home/user/.openhue:/.openhue" --rm openhue/cli set light "Desk Lamp" --on --color red --brightness 7''
     = Some [''docker'', ''run'', ''-v'', ''/home/user/.openhue:/.openhue'', ''--rm'', ''openhue/cli'',
             ''set'', ''light'', ''Desk Lamp'', ''--on'', ''--color'', ''red'', ''--brightness'', ''7'']
   \<and> snd (CallTool quiet_env ''control-light''
          (Some [''target'' \<mapsto> JStr ''Desk Lamp'', ''action'' \<mapsto> JStr ''on'',
                 ''brightness'' \<mapsto> JNum 50, ''color'' \<mapsto> JStr ''red --brightness 7'']))
     = [''docker run -v "/home/user/.openhue:/.openhue" --rm openhue/cli set light "Desk Lamp" --on --brightness 50 --color red --brightness 7'']
   \<and> sh_words ''docker run -v "/home/user/.openhue:/.openhue" --rm openhue/cli set light "Desk Lamp" --on --brightness 50 --color red --brightness 7''
     = Some [''docker'', ''run'', ''-v'', ''/home/user/.openhue:/.openhue'', ''--rm'', ''openhue/cli'',
             ''set'', ''light'', ''Desk Lamp'', ''--on'', ''--brightness'', ''50'', ''--color'', ''red'',
             ''--brightness'', ''7'']\<close>
proof (intro conjI)
  have cfg: "configPath quiet_env = ''/home/user/.openhue''"
    by (simp add: quiet_env_def)
  have without: "LightActionSchema_parse
       (Some [''target'' \<mapsto> JStr ''Desk Lamp'', ''action'' \<mapsto> JStr ''on'',
              ''color'' \<mapsto> JStr ''red --brightness 7''])
     = Inr \<lparr>target = ''Desk Lamp'', action = ''on'', brightness = None,
            color = Some ''red --brightness 7'', temperature = None\<rparr>"
    by (simp add: LightActionSchema_parse_def field_parser_defs)
  show \<open>snd (CallTool quiet_env ''control-light''
          (Some [''target'' \<mapsto> JStr ''Desk Lamp'', ''action'' \<mapsto> JStr ''on'',
                 ''color'' \<mapsto> JStr ''red --brightness 7'']))
     = [''docker run -v "/home/user/.openhue:/.openhue" --rm openhue/cli set light "Desk Lamp" --on --color red --brightness 7'']\<close>
    by (simp add: CallTool_control_light [OF without] control_light_command_def buildDockerCommand_def cfg)
  have given: "LightActionSchema_parse
       (Some [''target'' \<mapsto> JStr ''Desk Lamp'', ''action'' \<mapsto> JStr ''on'',
              ''brightness'' \<mapsto> JNum 50, ''color'' \<mapsto> JStr ''red --brightness 7''])
     = Inr \<lparr>target = ''Desk Lamp'', action = ''on'', brightness = Some 50,
            color = Some ''red --brightness 7'', temperature = None\<rparr>"
    by (simp add: LightActionSchema_parse_def field_parser_defs)
  show \<open>snd (CallTool quiet_env ''control-light''
          (Some [''target'' \<mapsto> JStr ''Desk Lamp'', ''action'' \<mapsto> JStr ''on'',
                 ''brightness'' \<mapsto> JNum 50, ''color'' \<mapsto> JStr ''red --brightness 7'']))
     = [''docker run -v "/home/user/.openhue:/.openhue" --rm openhue/cli set light "Desk Lamp" --on --brightness 50 --color red --brightness 7'']\<close>
    by (simp add: CallTool_control_light [OF given] control_light_command_def buildDockerCommand_def cfg
        Number_toString_50)
  show \<open>sh_words ''docker run -v "/home/user/.openhue:/.openhue" --rm openhue/cli set light "Desk Lamp" --on --color red --brightness 7''
     = Some [''docker'', ''run'', ''-v'', ''/home/user/.openhue:/.openhue'', ''--rm'', ''openhue/cli'',
             ''set'', ''light'', ''Desk Lamp'', ''--on'', ''--color'', ''red'', ''--brightness'', ''7'']\<close>
    by code_simp
  show \<open>sh_words ''docker run -v "/home/user/.openhue:/.openhue" --rm openhue/cli set light "Desk Lamp" --on --brightness 50 --color red --brightness 7''
     = Some [''docker'', ''run'', ''-v'', ''/home/user/.openhue:/.openhue'', ''--rm'', ''openhue/cli'',
             ''set'', ''light'', ''Desk Lamp'', ''--on'', ''--brightness'', ''50'', ''--color'', ''red'',
             ''--brightness'', ''7'']\<close>
    by code_simp
qed

section \<open>String fields\<close>

text \<open>
  Claim C5, as amended. Validation requires \<^verbatim>\<open>target\<close> (\<^verbatim>\<open>control-light\<close>,
  \<^verbatim>\<open>control-room\<close>) and \<^verbatim>\<open>name\<close> (\<^verbatim>\<open>activate-scene\<close>) to be present and to be strings,
  and \<^verbatim>\<open>color\<close>, when present, to be a string: a bag that breaks one of these fails with
  \<^verbatim>\<open>Invalid arguments\<close> and no command is run. The empty string is a string: the
  string parser accepts it, required or optional.
\<close>

theorem strings_required_empty_accepted:
  "((tool = ''control-light'' \<or> tool = ''control-room'')
      \<and> ((\<forall>s. m ''target'' \<noteq> Some (JStr s))
         \<or> (m ''color'' \<noteq> None \<and> (\<forall>s. m ''color'' \<noteq> Some (JStr s))))
     \<longrightarrow> (\<exists>msg. CallTool e tool (Some m) = (Inl (Error (''Invalid arguments: '' @ msg)), [])))
   \<and> ((\<forall>s. m ''name'' \<noteq> Some (JStr s))
     \<longrightarrow> (\<exists>msg. CallTool e ''activate-scene'' (Some m) = (Inl (Error (''Invalid arguments: '' @ msg)), [])))
   \<and> z_string p (Some (JStr [])) = Inr []
   \<and> z_optional z_string p (Some (JStr [])) = Inr (Some [])"
proof (intro conjI impI)
  assume h: "(tool = ''control-light'' \<or> tool = ''control-room'')
      \<and> ((\<forall>s. m ''target'' \<noteq> Some (JStr s))
         \<or> (m ''color'' \<noteq> None \<and> (\<forall>s. m ''color'' \<noteq> Some (JStr s))))"
  then have tool: "tool = ''control-light'' \<or> tool = ''control-room''" by blast
  from h have "action_field_issues m \<noteq> []"
    unfolding action_field_issues_def
    using not_string_issue [of "m ''target''" "[''target'']"]
      present_not_string_issue [of "m ''color''" "[''color'']"]
    by auto
  then have "validation_issues tool (Some m) \<noteq> []"
    by (simp add: action_tool_issues [OF tool])
  from CallTool_violations [OF this, of e]
  show "\<exists>msg. CallTool e tool (Some m) = (Inl (Error (''Invalid arguments: '' @ msg)), [])"
    by blast
next
  assume "\<forall>s. m ''name'' \<noteq> Some (JStr s)"
  then have "scene_field_issues m \<noteq> []"
    unfolding scene_field_issues_def
    using not_string_issue [of "m ''name''" "[''name'']"] by auto
  then have "validation_issues ''activate-scene'' (Some m) \<noteq> []"
    by (simp add: validation_issues_Some)
  from CallTool_violations [OF this, of e]
  show "\<exists>msg. CallTool e ''activate-scene'' (Some m) = (Inl (Error (''Invalid arguments: '' @ msg)), [])"
    by blast
next
  show "z_string p (Some (JStr [])) = Inr []"
    by (simp add: z_string_def)
next
  show "z_optional z_string p (Some (JStr [])) = Inr (Some [])"
    by (simp add: z_optional_def z_string_def)
qed

theorem strings_required_empty_accepted_witness:
  "\<exists>msg. CallTool quiet_env ''control-light'' (Some [''target'' \<mapsto> JNum 3, ''action'' \<mapsto> JStr ''on''])
           = (Inl (Error (''Invalid arguments: '' @ msg)), [])"
proof -
  let ?m = "[''target'' \<mapsto> JNum 3, ''action'' \<mapsto> JStr ''on'']"
  have "(''control-light'' = ''control-light'' \<or> ''control-light'' = ''control-room'')
      \<and> ((\<forall>s. ?m ''target'' \<noteq> Some (JStr s))
         \<or> (?m ''color'' \<noteq> None \<and> (\<forall>s. ?m ''color'' \<noteq> Some (JStr s))))"
    by simp
  with strings_required_empty_accepted
    [where tool = "''control-light''" and m = ?m and e = quiet_env, THEN conjunct1]
  show ?thesis by blast
qed

text \<open>
  The claim as stated asks that an empty \<^verbatim>\<open>target\<close>, \<^verbatim>\<open>name\<close> or \<^verbatim>\<open>color\<close> be
  rejected. Such calls validate and run a command.
\<close>

theorem empty_strings_pass_validation:
  \<open>CallTool quiet_env ''control-light''
      (Some [''target'' \<mapsto> JStr [], ''action'' \<mapsto> JStr ''on'', ''color'' \<mapsto> JStr []])
    = (Inr ''Successfully set light "" to on'',
       [''docker run -v "/home/user/.openhue:/.openhue" --rm openhue/cli set light "" --on''])
   \<and> CallTool quiet_env ''activate-scene'' (Some [''name'' \<mapsto> JStr []])
    = (Inr ''Successfully activated scene ""'',
       [''docker run -v "/home/user/.openhue:/.openhue" --rm openhue/cli set scene ""''])\<close>
proof (intro conjI)
  have ok: "spawn quiet_env c = Exited 0 ''[]'' []" for c
    by (simp add: quiet_env_def)
  have len: "length ''[]'' \<le> maxBuffer"
    by (simp add: maxBuffer_def)
  have cfg: "configPath quiet_env = ''/home/user/.openhue''"
    by (simp add: quiet_env_def)
  have light: "LightActionSchema_parse
       (Some [''target'' \<mapsto> JStr [], ''action'' \<mapsto> JStr ''on'', ''color'' \<mapsto> JStr []])
     = Inr \<lparr>target = [], action = ''on'', brightness = None, color = Some [], temperature = None\<rparr>"
    by (simp add: LightActionSchema_parse_def field_parser_defs)
  show \<open>CallTool quiet_env ''control-light''
      (Some [''target'' \<mapsto> JStr [], ''action'' \<mapsto> JStr ''on'', ''color'' \<mapsto> JStr []])
    = (Inr ''Successfully set light "" to on'',
       [''docker run -v "/home/user/.openhue:/.openhue" --rm openhue/cli set light "" --on''])\<close>
    by (simp add: CallTool_control_light [OF light] finish_success [OF ok len] control_light_command_def
        buildDockerCommand_def cfg)
  have scene: "SceneActionSchema_parse (Some [''name'' \<mapsto> JStr []])
     = Inr \<lparr>name = [], room = None, mode = None\<rparr>"
    by (simp add: SceneActionSchema_parse_def field_parser_defs)
  show \<open>CallTool quiet_env ''activate-scene'' (Some [''name'' \<mapsto> JStr []])
    = (Inr ''Successfully activated scene ""'',
       [''docker run -v "/home/user/.openhue:/.openhue" --rm openhue/cli set scene ""''])\<close>
    by (simp add: CallTool_activate_scene [OF scene] finish_success [OF ok len] activate_scene_command_def
        buildDockerCommand_def cfg)
qed

section \<open>Every violation is reported\<close>

text \<open>
  Claim C6. When validation finds violations, the call fails with one error, no command
  is run, and the message is \<^verbatim>\<open>Invalid arguments: \<close> followed by all violations, each as
  its path, a colon and its reason, joined by commas: every violation appears in it. For
  a bag that is present the violations are those of every field of the schema, in the
  order of the schema, not only the first.
\<close>

theorem invalid_arguments_lists_every_violation:
  assumes "validation_issues tool a \<noteq> []"
  shows "(\<exists>msg. CallTool e tool a = (Inl (Error msg), [])
            \<and> msg = ''Invalid arguments: ''
                    @ join '', '' (map (\<lambda>i. join ''.'' (path i) @ '': '' @ message i)
                                     (validation_issues tool a))
            \<and> (\<forall>i \<in> set (validation_issues tool a).
                  sublist (join ''.'' (path i) @ '': '' @ message i) msg))
       \<and> (\<forall>m. a = Some m \<and> (tool = ''control-light'' \<or> tool = ''control-room'')
              \<longrightarrow> validation_issues tool a = action_field_issues m)
       \<and> (\<forall>m. a = Some m \<and> tool = ''activate-scene''
              \<longrightarrow> validation_issues tool a = scene_field_issues m)"
proof (intro conjI allI impI)
  let ?msg = "''Invalid arguments: '' @ join '', '' (map format_issue (validation_issues tool a))"
  have fmt: "format_issue = (\<lambda>i. join ''.'' (path i) @ '': '' @ message i)"
    by (rule ext) (simp add: format_issue_def)
  have call: "CallTool e tool a = (Inl (Error ?msg), [])"
    by (rule CallTool_violations [OF assms])
  have each: "sublist (format_issue i) ?msg" if "i \<in> set (validation_issues tool a)" for i
  proof -
    from that have "sublist (format_issue i) (join '', '' (map format_issue (validation_issues tool a)))"
      by (rule sublist_format_issue)
    then obtain ps ss where
      "join '', '' (map format_issue (validation_issues tool a)) = ps @ format_issue i @ ss"
      by (auto simp: sublist_def)
    then have "?msg = (''Invalid arguments: '' @ ps) @ format_issue i @ ss" by simp
    then show ?thesis unfolding sublist_def by blast
  qed
  show "\<exists>msg. CallTool e tool a = (Inl (Error msg), [])
            \<and> msg = ''Invalid arguments: ''
                    @ join '', '' (map (\<lambda>i. join ''.'' (path i) @ '': '' @ message i)
                                     (validation_issues tool a))
            \<and> (\<forall>i \<in> set (validation_issues tool a).
                  sublist (join ''.'' (path i) @ '': '' @ message i) msg)"
  proof (intro exI conjI ballI)
    show "CallTool e tool a = (Inl (Error ?msg), [])" by (rule call)
    show "?msg = ''Invalid arguments: ''
                    @ join '', '' (map (\<lambda>i. join ''.'' (path i) @ '': '' @ message i)
                                     (validation_issues tool a))"
      unfolding fmt ..
    fix i assume "i \<in> set (validation_issues tool a)"
    from each [OF this] show "sublist (join ''.'' (path i) @ '': '' @ message i) ?msg"
      by (simp only: format_issue_def)
  qed
next
  fix m assume "a = Some m \<and> (tool = ''control-light'' \<or> tool = ''control-room'')"
  then show "validation_issues tool a = action_field_issues m"
    using action_tool_issues by blast
next
  fix m assume "a = Some m \<and> tool = ''activate-scene''"
  then show "validation_issues tool a = scene_field_issues m"
    by (simp add: validation_issues_Some)
qed

theorem invalid_arguments_lists_every_violation_witness:
  "CallTool quiet_env ''control-light''
     (Some [''target'' \<mapsto> JNum 3, ''action'' \<mapsto> JStr ''onx'', ''brightness'' \<mapsto> JNum 500,
            ''temperature'' \<mapsto> JNum 1])
   = (Inl (Error ''Invalid arguments: target: Expected string, received number, action: Invalid enum value. Expected 'on' | 'off', received 'onx', brightness: Number must be less than or equal to 100, temperature: Number must be greater than or equal to 153''),
      [])"
proof -
  let ?m = "[''target'' \<mapsto> JNum 3, ''action'' \<mapsto> JStr ''onx'', ''brightness'' \<mapsto> JNum 500,
            ''temperature'' \<mapsto> JNum 1]"
  have found: "validation_issues ''control-light'' (Some ?m) =
      [\<lparr>path = [''target''], message = ''Expected string, received number''\<rparr>,
       \<lparr>path = [''action''], message = ''Invalid enum value. Expected 'on' | 'off', received '' @ [CHR 0x27] @ ''onx'' @ [CHR 0x27]\<rparr>,
       \<lparr>path = [''brightness''], message = ''Number must be less than or equal to 100''\<rparr>,
       \<lparr>path = [''temperature''], message = ''Number must be greater than or equal to 153''\<rparr>]"
    by (simp add: validation_issues_Some action_field_issues_def field_parser_defs digits_examples)
  then have "validation_issues ''control-light'' (Some ?m) \<noteq> []" by simp
  from invalid_arguments_lists_every_violation [OF this, of quiet_env, THEN conjunct1]
  show ?thesis unfolding found by (auto simp: format_issue_def)
qed

section \<open>The advertised schemas and the read tools\<close>

text \<open>
  Claim C2 asks that every argument bag outside a tool's advertised schema fail with
  \<^verbatim>\<open>Invalid arguments\<close> before a command is built, for all six tools. The
  \<^verbatim>\<open>get-lights\<close> case parses nothing: a \<^verbatim>\<open>lightId\<close> that is the number 5, or a \<^verbatim>\<open>room\<close>
  that is an object, is outside the advertised schema (both are declared strings), and the
  call prints the value into the command line and runs it.
\<close>

theorem get_lights_runs_unvalidated_arguments:
  \<open>find_tool ''get-lights'' = Some (ListTools ! 0)
   \<and> \<not> schema_accepts (ListTools ! 0) (Some [''lightId'' \<mapsto> JNum 5])
   \<and> CallTool quiet_env ''get-lights'' (Some [''lightId'' \<mapsto> JNum 5])
     = (Inr ''[]'', [''docker run -v "/home/user/.openhue:/.openhue" --rm openhue/cli get light "5" --json''])
   \<and> \<not> schema_accepts (ListTools ! 0) (Some [''room'' \<mapsto> JObj []])
   \<and> CallTool quiet_env ''get-lights'' (Some [''room'' \<mapsto> JObj []])
     = (Inr ''[]'', [''docker run -v "/home/user/.openhue:/.openhue" --rm openhue/cli get light --room "[object Object]" --json''])\<close>
proof (intro conjI)
  have ok: "spawn quiet_env c = Exited 0 ''[]'' []" for c
    by (simp add: quiet_env_def)
  have len: "length ''[]'' \<le> maxBuffer"
    by (simp add: maxBuffer_def)
  have cfg: "configPath quiet_env = ''/home/user/.openhue''"
    by (simp add: quiet_env_def)
  have five: "Number_toString e 5 = ''5''" for e
    by (simp add: Number_toString_def digits.simps [of 5] digit_char_def)
  have number: \<open>get_lights_command quiet_env (Some [''lightId'' \<mapsto> JNum 5])
      = Inr ''get light "5" --json''\<close>
    by (simp add: get_lights_command_def append_quoted_def field_def five)
  have object: \<open>get_lights_command quiet_env (Some [''room'' \<mapsto> JObj []])
      = Inr ''get light --room "[object Object]" --json''\<close>
    by (simp add: get_lights_command_def append_quoted_def field_def)
  show "find_tool ''get-lights'' = Some (ListTools ! 0)"
    by (simp add: find_tool_def ListTools_def)
  show "\<not> schema_accepts (ListTools ! 0) (Some [''lightId'' \<mapsto> JNum 5])"
    by (simp add: schema_accepts_def ListTools_def field_def property_accepts_def string_property_def)
  show "\<not> schema_accepts (ListTools ! 0) (Some [''room'' \<mapsto> JObj []])"
    by (simp add: schema_accepts_def ListTools_def field_def property_accepts_def string_property_def)
  show \<open>CallTool quiet_env ''get-lights'' (Some [''lightId'' \<mapsto> JNum 5])
     = (Inr ''[]'', [''docker run -v "/home/user/.openhue:/.openhue" --rm openhue/cli get light "5" --json''])\<close>
    by (simp add: CallTool_get_lights(1) [OF number] executeHueCommand_success [OF ok len]
        buildDockerCommand_def cfg)
  show \<open>CallTool quiet_env ''get-lights'' (Some [''room'' \<mapsto> JObj []])
     = (Inr ''[]'', [''docker run -v "/home/user/.openhue:/.openhue" --rm openhue/cli get light --room "[object Object]" --json''])\<close>
    by (simp add: CallTool_get_lights(1) [OF object] executeHueCommand_success [OF ok len]
        buildDockerCommand_def cfg)
qed

section \<open>Quoting of free-form values\<close>

text \<open>
  Claim C1 asks that every free-form value be quoted in the command so that the shell
  reads it back as one argument. The colour of \<^verbatim>\<open>control-light\<close> is appended without
  quotes: \<^verbatim>\<open>light blue\<close> reaches the shell as two words. The values that are wrapped in
  double quotes are not escaped: a scene name holding a double quote leaves a quote open,
  and the command line has no reading as a list of words.
\<close>

theorem unquoted_color_splits_into_two_words:
  \<open>snd (CallTool quiet_env ''control-light''
          (Some [''target'' \<mapsto> JStr ''Desk Lamp'', ''action'' \<mapsto> JStr ''on'', ''color'' \<mapsto> JStr ''light blue'']))
     = [''docker run -v "/home/user/.openhue:/.openhue" --rm openhue/cli set light "Desk Lamp" --on --color light blue'']
   \<and> sh_words ''docker run -v "/home/user/.openhue:/.openhue" --rm openhue/cli set light "Desk Lamp" --on --color light blue''
     = Some [''docker'', ''run'', ''-v'', ''/home/user/.openhue:/.openhue'', ''--rm'', ''openhue/cli'',
             ''set'', ''light'', ''Desk Lamp'', ''--on'', ''--color'', ''light'', ''blue'']
   \<and> snd (CallTool quiet_env ''activate-scene'' (Some [''name'' \<mapsto> JStr ''a"b'']))
     = [''docker run -v "/home/user/.openhue:/.openhue" --rm openhue/cli set scene "a"b"'']
   \<and> sh_words ''docker run -v "/home/user/.openhue:/.openhue" --rm openhue/cli set scene "a"b"'' = None\<close>
proof (intro conjI)
  have cfg: "configPath quiet_env = ''/home/user/.openhue''"
    by (simp add: quiet_env_def)
  have light: "LightActionSchema_parse
       (Some [''target'' \<mapsto> JStr ''Desk Lamp'', ''action'' \<mapsto> JStr ''on'', ''color'' \<mapsto> JStr ''light blue''])
     = Inr \<lparr>target = ''Desk Lamp'', action = ''on'', brightness = None, color = Some ''light blue'',
            temperature = None\<rparr>"
    by (simp add: LightActionSchema_parse_def field_parser_defs)
  show \<open>snd (CallTool quiet_env ''control-light''
          (Some [''target'' \<mapsto> JStr ''Desk Lamp'', ''action'' \<mapsto> JStr ''on'', ''color'' \<mapsto> JStr ''light blue'']))
     = [''docker run -v "/home/user/.openhue:/.openhue" --rm openhue/cli set light "Desk Lamp" --on --color light blue'']\<close>
    by (simp add: CallTool_control_light [OF light] control_light_command_def buildDockerCommand_def cfg)
  have scene: \<open>SceneActionSchema_parse (Some [''name'' \<mapsto> JStr ''a"b''])
     = Inr \<lparr>name = ''a"b'', room = None, mode = None\<rparr>\<close>
    by (simp add: SceneActionSchema_parse_def field_parser_defs)
  show \<open>snd (CallTool quiet_env ''activate-scene'' (Some [''name'' \<mapsto> JStr ''a"b'']))
     = [''docker run -v "/home/user/.openhue:/.openhue" --rm openhue/cli set scene "a"b"'']\<close>
    by (simp add: CallTool_activate_scene [OF scene] activate_scene_command_def buildDockerCommand_def cfg)
  show \<open>sh_words ''docker run -v "/home/user/.openhue:/.openhue" --rm openhue/cli set light "Desk Lamp" --on --color light blue''
     = Some [''docker'', ''run'', ''-v'', ''/home/user/.openhue:/.openhue'', ''--rm'', ''openhue/cli'',
             ''set'', ''light'', ''Desk Lamp'', ''--on'', ''--color'', ''light'', ''blue'']\<close>
    by code_simp
  show \<open>sh_words ''docker run -v "/home/user/.openhue:/.openhue" --rm openhue/cli set scene "a"b"'' = None\<close>
    by code_simp
qed

end
